theory Spec2Isabelle
  imports Complex_Main "HOL-Library.Multiset"
begin

section \<open>Signal derivation and composite scoring (backend/signals.ts, backend/server.ts)\<close>

text \<open>
  Conventions of the embedding.
  \<^item> A TypeScript \<open>number\<close> is modelled as an exact \<open>real\<close>: rounding, NaN and the
    infinities of IEEE doubles are outside that part of the model. Where the source
    tests \<open>Number.isFinite\<close> on a parsed text, the parsed value is a \<open>real option\<close>
    and \<open>None\<close> stands for "not a finite number". The relative-strength oscillator is
    embedded a second time on numbers that overflow to the infinities and carry NaN
    (type \<open>jsnum\<close>), for the statements that depend on those values.
  \<^item> \<open>T | null\<close> is \<open>T option\<close>.
  \<^item> A rejected promise or a thrown \<open>Error\<close> is \<open>Inl e\<close> of \<open>error + 'a\<close>.
  \<^item> A \<open>for\<close> loop over an index range is a \<open>fold\<close> over the list of its indices.
  \<^item> Clock readings (\<open>Date.now()\<close>, \<open>new Date()\<close>) are explicit \<open>int\<close> arguments,
    in milliseconds; \<open>toISOString\<close> is not modelled, a time stamp stays a number.
\<close>

subsection \<open>Numeric helpers\<close>

text \<open>\<open>clamp(value, min = -1, max = 1)\<close>; every call site uses the defaults.\<close>

definition clamp3 :: "real \<Rightarrow> real \<Rightarrow> real \<Rightarrow> real" where
  "clamp3 v mn mx = max mn (min mx v)"

definition clamp :: "real \<Rightarrow> real" where
  "clamp v = clamp3 v (- 1) 1"

text \<open>\<open>values.reduce((sum, value) => sum + value, 0) / values.length\<close>. On the empty
  list JavaScript yields NaN; the model yields \<open>0 / 0 = 0\<close>. Every call site with a
  positive period passes a non-empty list.\<close>

definition rollingAverage :: "real list \<Rightarrow> real" where
  "rollingAverage vs = foldl (\<lambda>sum v. sum + v) 0 vs / real (length vs)"

text \<open>\<open>Array.prototype.slice\<close>: a negative index counts from the end, and both
  indices are cut to the range of the array.\<close>

definition rel_index :: "nat \<Rightarrow> int \<Rightarrow> nat" where
  "rel_index len k = (if k < 0 then nat (max (int len + k) 0) else min (nat k) len)"

definition slice :: "'a list \<Rightarrow> int \<Rightarrow> int \<Rightarrow> 'a list" where
  "slice xs start fin =
     (let s = rel_index (length xs) start; e = rel_index (length xs) fin
      in take (e - s) (drop s xs))"

definition slice_from :: "'a list \<Rightarrow> int \<Rightarrow> 'a list" where
  "slice_from xs start = slice xs start (int (length xs))"

subsection \<open>Indicator library\<close>

definition calculateSMA :: "real list \<Rightarrow> nat \<Rightarrow> real option" where
  "calculateSMA vs period =
     (if length vs < period then None
      else Some (rollingAverage (slice_from vs (- int period))))"

definition calculateEMA :: "real list \<Rightarrow> nat \<Rightarrow> real option" where
  "calculateEMA vs period =
     (if length vs < period then None
      else
        let smoothing = 2 / (real period + 1);
            ema0 = rollingAverage (slice vs 0 (int period))
        in Some (fold (\<lambda>i ema. vs ! i * smoothing + ema * (1 - smoothing))
                   [period ..< length vs] ema0))"

text \<open>The first loop of \<open>calculateRSI\<close> (\<open>i = 1 .. period\<close>) sums gains and losses. On
  exact reals these sums cannot overflow; the oscillator is embedded again, on numbers
  that do, in the next subsection, and the statement about its range is made there.\<close>

definition rsi_seed_step :: "real list \<Rightarrow> nat \<Rightarrow> real \<times> real \<Rightarrow> real \<times> real" where
  "rsi_seed_step vs i acc =
     (let change = vs ! i - vs ! (i - 1)
      in if change \<ge> 0 then (fst acc + change, snd acc)
         else (fst acc, snd acc + \<bar>change\<bar>))"

text \<open>The second loop (\<open>i = period + 1 .. length - 1\<close>) is Wilder's running average.\<close>

definition rsi_wilder_step :: "real list \<Rightarrow> nat \<Rightarrow> nat \<Rightarrow> real \<times> real \<Rightarrow> real \<times> real" where
  "rsi_wilder_step vs period i acc =
     (let change = vs ! i - vs ! (i - 1);
          gain = max change 0;
          loss = max (- change) 0
      in ((fst acc * (real period - 1) + gain) / real period,
          (snd acc * (real period - 1) + loss) / real period))"

text \<open>The pair \<open>(avgGain, avgLoss)\<close> as it stands after both loops.\<close>

definition rsi_averages :: "real list \<Rightarrow> nat \<Rightarrow> real \<times> real" where
  "rsi_averages vs period =
     (let totals = fold (rsi_seed_step vs) [1 ..< period + 1] (0, 0);
          avgGain0 = fst totals / real period;
          avgLoss0 = snd totals / real period
      in fold (rsi_wilder_step vs period) [period + 1 ..< length vs] (avgGain0, avgLoss0))"

definition calculateRSI :: "real list \<Rightarrow> nat \<Rightarrow> real option" where
  "calculateRSI vs period =
     (if length vs \<le> period then None
      else
        let avgGain = fst (rsi_averages vs period);
            avgLoss = snd (rsi_averages vs period)
        in if avgLoss = 0 then Some 100
           else let rs = avgGain / avgLoss in Some (100 - 100 / (1 + rs)))"

definition RSI_PERIOD :: nat where
  "RSI_PERIOD = 14"

record macd_result =
  macdValue :: real
  signalLine :: real
  histogram :: real

definition macd_step ::
  "real list \<Rightarrow> real \<Rightarrow> real \<Rightarrow> nat \<Rightarrow> real \<times> real \<times> real list \<Rightarrow> real \<times> real \<times> real list" where
  "macd_step vs kShort kLong i acc =
     (case acc of (emaShort, emaLong, macdValues) \<Rightarrow>
        let emaShort' = vs ! i * kShort + emaShort * (1 - kShort);
            emaLong' = vs ! i * kLong + emaLong * (1 - kLong)
        in (emaShort', emaLong', macdValues @ [emaShort' - emaLong']))"

definition macd_series :: "real list \<Rightarrow> real list" where
  "macd_series vs =
     (let shortPeriod = 12; longPeriod = 26;
          kShort = 2 / (real shortPeriod + 1);
          kLong = 2 / (real longPeriod + 1)
      in snd (snd (fold (macd_step vs kShort kLong) [longPeriod ..< length vs]
                     (rollingAverage (slice vs 0 (int shortPeriod)),
                      rollingAverage (slice vs 0 (int longPeriod)), []))))"

definition calculateMACD :: "real list \<Rightarrow> macd_result option" where
  "calculateMACD vs =
     (if length vs < 35 then None
      else
        let signalPeriod = 9;
            macdValues = macd_series vs
        in if length macdValues < signalPeriod then None
           else
             let signal0 = rollingAverage (slice macdValues 0 (int signalPeriod));
                 kSignal = 2 / (real signalPeriod + 1);
                 sig = fold (\<lambda>i s. macdValues ! i * kSignal + s * (1 - kSignal))
                         [signalPeriod ..< length macdValues] signal0;
                 m = macdValues ! (length macdValues - 1)
             in Some \<lparr>macdValue = m, signalLine = sig, histogram = m - sig\<rparr>)"

record bollinger_bands =
  middle :: real
  upper :: real
  lower :: real
  stdDev :: real

definition calculateBollinger :: "real list \<Rightarrow> nat \<Rightarrow> real \<Rightarrow> bollinger_bands option" where
  "calculateBollinger vs period multiplier =
     (if length vs < period then None
      else
        let sl = slice_from vs (- int period);
            mid = rollingAverage sl;
            variance = foldl (\<lambda>sum v. sum + (v - mid) ^ 2) 0 sl / real period;
            sd = sqrt variance
        in Some \<lparr>middle = mid, upper = mid + multiplier * sd,
                 lower = mid - multiplier * sd, stdDev = sd\<rparr>)"

text \<open>\<open>!baseline\<close> holds for \<open>0\<close> (and for NaN, which the model does not have).\<close>

definition calculateVolumeSurge :: "real list \<Rightarrow> nat \<Rightarrow> real option" where
  "calculateVolumeSurge volumes period =
     (if length volumes \<le> period then None
      else
        let recent = volumes ! (length volumes - 1);
            baseline = rollingAverage (slice volumes (- (int period + 1)) (- 1))
        in if baseline = 0 then None
           else let ratio = recent / baseline in Some (clamp (ratio - 1)))"

subsection \<open>JavaScript numbers with their non-finite values\<close>

text \<open>A \<open>number\<close> as a finite value, an infinity or NaN. The operations follow
  IEEE 754 as JavaScript has it, except that a finite result is kept exact where a double
  is rounded: a result overflows to an infinity from \<open>2^1024 - 2^970\<close> on (the least
  magnitude that round-to-nearest takes to Infinity), an infinity minus itself and an
  infinity over an infinity are NaN, NaN propagates, and every comparison with NaN is
  false. A zero is taken as \<open>+0\<close>, and underflow is not modelled.\<close>

datatype jsnum = Fin real | PInf | NInf | NaN

definition OVERFLOW_AT :: real where
  "OVERFLOW_AT = 2 ^ 1024 - 2 ^ 970"

definition overflow :: "real \<Rightarrow> jsnum" where
  "overflow r = (if OVERFLOW_AT \<le> r then PInf else if r \<le> - OVERFLOW_AT then NInf else Fin r)"

fun jneg :: "jsnum \<Rightarrow> jsnum" where
  "jneg (Fin a) = Fin (- a)"
| "jneg PInf = NInf"
| "jneg NInf = PInf"
| "jneg NaN = NaN"

fun jadd :: "jsnum \<Rightarrow> jsnum \<Rightarrow> jsnum" where
  "jadd (Fin a) (Fin b) = overflow (a + b)"
| "jadd NaN y = NaN"
| "jadd x NaN = NaN"
| "jadd PInf NInf = NaN"
| "jadd NInf PInf = NaN"
| "jadd PInf y = PInf"
| "jadd x PInf = PInf"
| "jadd NInf y = NInf"
| "jadd x NInf = NInf"

definition jsub :: "jsnum \<Rightarrow> jsnum \<Rightarrow> jsnum" where
  "jsub x y = jadd x (jneg y)"

fun jmul :: "jsnum \<Rightarrow> jsnum \<Rightarrow> jsnum" where
  "jmul (Fin a) (Fin b) = overflow (a * b)"
| "jmul NaN y = NaN"
| "jmul x NaN = NaN"
| "jmul PInf (Fin b) = (if b = 0 then NaN else if 0 < b then PInf else NInf)"
| "jmul NInf (Fin b) = (if b = 0 then NaN else if 0 < b then NInf else PInf)"
| "jmul (Fin a) PInf = (if a = 0 then NaN else if 0 < a then PInf else NInf)"
| "jmul (Fin a) NInf = (if a = 0 then NaN else if 0 < a then NInf else PInf)"
| "jmul PInf PInf = PInf"
| "jmul PInf NInf = NInf"
| "jmul NInf PInf = NInf"
| "jmul NInf NInf = PInf"

fun jdiv :: "jsnum \<Rightarrow> jsnum \<Rightarrow> jsnum" where
  "jdiv (Fin a) (Fin b) =
     (if b = 0 then (if a = 0 then NaN else if 0 < a then PInf else NInf)
      else overflow (a / b))"
| "jdiv NaN y = NaN"
| "jdiv x NaN = NaN"
| "jdiv (Fin a) PInf = Fin 0"
| "jdiv (Fin a) NInf = Fin 0"
| "jdiv PInf (Fin b) = (if 0 \<le> b then PInf else NInf)"
| "jdiv NInf (Fin b) = (if 0 \<le> b then NInf else PInf)"
| "jdiv PInf PInf = NaN"
| "jdiv PInf NInf = NaN"
| "jdiv NInf PInf = NaN"
| "jdiv NInf NInf = NaN"

fun jabs :: "jsnum \<Rightarrow> jsnum" where
  "jabs (Fin a) = Fin \<bar>a\<bar>"
| "jabs PInf = PInf"
| "jabs NInf = PInf"
| "jabs NaN = NaN"

fun jmax :: "jsnum \<Rightarrow> jsnum \<Rightarrow> jsnum" where
  "jmax (Fin a) (Fin b) = Fin (max a b)"
| "jmax NaN y = NaN"
| "jmax x NaN = NaN"
| "jmax PInf y = PInf"
| "jmax x PInf = PInf"
| "jmax NInf y = y"
| "jmax x NInf = x"

fun jge :: "jsnum \<Rightarrow> jsnum \<Rightarrow> bool" where
  "jge (Fin a) (Fin b) = (b \<le> a)"
| "jge NaN y = False"
| "jge x NaN = False"
| "jge PInf y = True"
| "jge x NInf = True"
| "jge (Fin a) PInf = False"
| "jge NInf (Fin b) = False"

fun is_finite :: "jsnum \<Rightarrow> bool" where
  "is_finite (Fin a) = True"
| "is_finite x = False"

text \<open>\<open>calculateRSI\<close> on these numbers: the two loops and the final formula of the
  source, operation by operation.\<close>

definition rsi_seed_step_num :: "jsnum list \<Rightarrow> nat \<Rightarrow> jsnum \<times> jsnum \<Rightarrow> jsnum \<times> jsnum" where
  "rsi_seed_step_num vs i acc =
     (let change = jsub (vs ! i) (vs ! (i - 1))
      in if jge change (Fin 0) then (jadd (fst acc) change, snd acc)
         else (fst acc, jadd (snd acc) (jabs change)))"

definition rsi_wilder_step_num ::
  "jsnum list \<Rightarrow> nat \<Rightarrow> nat \<Rightarrow> jsnum \<times> jsnum \<Rightarrow> jsnum \<times> jsnum" where
  "rsi_wilder_step_num vs period i acc =
     (let change = jsub (vs ! i) (vs ! (i - 1));
          gain = jmax change (Fin 0);
          loss = jmax (jneg change) (Fin 0)
      in (jdiv (jadd (jmul (fst acc) (Fin (real period - 1))) gain) (Fin (real period)),
          jdiv (jadd (jmul (snd acc) (Fin (real period - 1))) loss) (Fin (real period))))"

definition rsi_averages_num :: "jsnum list \<Rightarrow> nat \<Rightarrow> jsnum \<times> jsnum" where
  "rsi_averages_num vs period =
     (let totals = fold (rsi_seed_step_num vs) [1 ..< period + 1] (Fin 0, Fin 0);
          avgGain0 = jdiv (fst totals) (Fin (real period));
          avgLoss0 = jdiv (snd totals) (Fin (real period))
      in fold (rsi_wilder_step_num vs period) [period + 1 ..< length vs] (avgGain0, avgLoss0))"

definition rsi_value :: "jsnum \<Rightarrow> jsnum \<Rightarrow> jsnum" where
  "rsi_value avgGain avgLoss =
     (if avgLoss = Fin 0 then Fin 100
      else let rs = jdiv avgGain avgLoss
           in jsub (Fin 100) (jdiv (Fin 100) (jadd (Fin 1) rs)))"

definition calculateRSI_num :: "jsnum list \<Rightarrow> nat \<Rightarrow> jsnum option" where
  "calculateRSI_num vs period =
     (if length vs \<le> period then None
      else Some (rsi_value (fst (rsi_averages_num vs period)) (snd (rsi_averages_num vs period))))"

subsection \<open>Data model\<close>

record SentimentSnapshot =
  bullishPercent :: real
  bearishPercent :: real
  sentScore :: real

record VolatilitySnapshot =
  currentIv :: real
  lowIv :: real
  highIv :: real

record IndicatorSignals =
  smaTrend :: "real option"
  rsi :: "real option"
  macd :: "real option"
  bollinger :: "real option"
  volumeSurge :: "real option"
  sentiment :: "real option"
  ivRank :: "real option"

text \<open>A display string built from a template literal: literal text and numbers
  printed by \<open>toFixed(digits)\<close>, kept symbolic.\<close>

datatype piece = Lit string | Fixed real nat

record IndicatorDetail =
  dname :: string
  dvalue :: "piece list"
  dsignal :: "real option"

record CompositePick =
  symbol :: string
  score :: real
  updatedAt :: int
  latestPrice :: "real option"
  explanation :: string
  signals :: IndicatorSignals
  details :: "IndicatorDetail list"

text \<open>The overview payload, \<open>Record<string, string>\<close>: each key is mapped to the
  \<open>Number.parseFloat\<close> of its text, \<open>None\<close> when that is not a finite number.\<close>

type_synonym fundamentals = "string \<rightharpoonup> real option"

subsection \<open>Normalizer\<close>

text \<open>The three \<open>Number.isFinite\<close> tests of \<open>calculateIvRank\<close> hold for every real
  number, so only the test \<open>highIv === lowIv\<close> remains.\<close>

definition calculateIvRank :: "VolatilitySnapshot option \<Rightarrow> real option" where
  "calculateIvRank snapshot =
     (case snapshot of
        None \<Rightarrow> None
      | Some s \<Rightarrow>
          if highIv s = lowIv s then None
          else let rank = (currentIv s - lowIv s) / (highIv s - lowIv s)
               in Some (clamp (rank * 2 - 1)))"

definition sentimentSignal :: "SentimentSnapshot option \<Rightarrow> real option" where
  "sentimentSignal snapshot =
     (case snapshot of None \<Rightarrow> None | Some s \<Rightarrow> Some (clamp (sentScore s)))"

definition macdSignal :: "macd_result option \<Rightarrow> real option" where
  "macdSignal m =
     (case m of
        None \<Rightarrow> None
      | Some r \<Rightarrow>
          let base = histogram r;
              scale = max 0.01 \<bar>signalLine r\<bar>
          in Some (clamp (base / scale)))"

definition bollingerSignal :: "real option \<Rightarrow> bollinger_bands option \<Rightarrow> real option" where
  "bollingerSignal price bands =
     (case bands of
        None \<Rightarrow> None
      | Some b \<Rightarrow>
          (case price of
             None \<Rightarrow> None
           | Some p \<Rightarrow>
               if stdDev b = 0 then Some 0
               else Some (clamp ((p - middle b) / (2 * stdDev b)))))"

definition smaSignal :: "real option \<Rightarrow> real option \<Rightarrow> real option" where
  "smaSignal sma50 sma200 =
     (case sma50 of
        None \<Rightarrow> None
      | Some a \<Rightarrow>
          (case sma200 of
             None \<Rightarrow> None
           | Some b \<Rightarrow> if b = 0 then None else Some (clamp ((a - b) / b))))"

definition rsiSignal :: "real option \<Rightarrow> real option" where
  "rsiSignal r = (case r of None \<Rightarrow> None | Some x \<Rightarrow> Some (clamp ((x - 50) / 25)))"

subsection \<open>Explanation builder\<close>

definition parsedOrZero :: "fundamentals \<Rightarrow> string \<Rightarrow> real option" where
  \<comment> \<open>\<open>Number.parseFloat(f.KEY ?? '0')\<close>\<close>
  "parsedOrZero f k = (case f k of None \<Rightarrow> Some 0 | Some v \<Rightarrow> v)"

definition fundamentalDetails :: "fundamentals option \<Rightarrow> IndicatorDetail list" where
  "fundamentalDetails fo =
     (case fo of
        None \<Rightarrow> []
      | Some f \<Rightarrow>
          (case parsedOrZero f ''PERatio'' of
             None \<Rightarrow> []
           | Some pe \<Rightarrow>
               if pe > 0 then [\<lparr>dname = ''P/E Ratio'', dvalue = [Fixed pe 1], dsignal = None\<rparr>]
               else [])
          @ (case parsedOrZero f ''ProfitMargin'' of
               None \<Rightarrow> []
             | Some pm \<Rightarrow>
                 [\<lparr>dname = ''Profit Margin'', dvalue = [Fixed (pm * 100) 1, Lit ''%''],
                   dsignal = None\<rparr>]))"

definition buildDetails ::
  "string \<Rightarrow> real option \<Rightarrow> real option \<Rightarrow> real option \<Rightarrow> real option \<Rightarrow>
   macd_result option \<Rightarrow> bollinger_bands option \<Rightarrow> real option \<Rightarrow>
   SentimentSnapshot option \<Rightarrow> real option \<Rightarrow> fundamentals option \<Rightarrow> IndicatorDetail list" where
  "buildDetails symb price sma50 sma200 rsiV macdV bands volSurge sent ivr fo =
     [\<lparr>dname = ''Last Price'',
       dvalue = (case price of None \<Rightarrow> [Lit ''n/a''] | Some p \<Rightarrow> [Lit ''$'', Fixed p 2]),
       dsignal = None\<rparr>]
     @ (case (sma50, sma200) of
          (Some a, Some b) \<Rightarrow>
            [\<lparr>dname = ''SMA50 / SMA200'', dvalue = [Fixed a 2, Lit '' / '', Fixed b 2],
              dsignal = smaSignal sma50 sma200\<rparr>]
        | _ \<Rightarrow> [])
     @ (case rsiV of
          None \<Rightarrow> []
        | Some r \<Rightarrow> [\<lparr>dname = ''RSI(14)'', dvalue = [Fixed r 1], dsignal = rsiSignal rsiV\<rparr>])
     @ (case macdV of
          None \<Rightarrow> []
        | Some m \<Rightarrow>
            [\<lparr>dname = ''MACD (Hist)'', dvalue = [Fixed (histogram m) 3],
              dsignal = macdSignal macdV\<rparr>])
     @ (case bands of
          None \<Rightarrow> []
        | Some b \<Rightarrow>
            [\<lparr>dname = ''Bollinger Band'',
              dvalue = [Fixed (lower b) 2, Lit '' - '', Fixed (upper b) 2],
              dsignal = bollingerSignal price bands\<rparr>])
     @ (case volSurge of
          None \<Rightarrow> []
        | Some v \<Rightarrow>
            [\<lparr>dname = ''Volume vs Avg'', dvalue = [Fixed (v * 100) 1, Lit ''%''],
              dsignal = Some (clamp v)\<rparr>])
     @ (case sent of
          None \<Rightarrow> []
        | Some s \<Rightarrow>
            [\<lparr>dname = ''Sentiment (Bull/Bear)'',
              dvalue = [Fixed (bullishPercent s) 1, Lit ''% / '', Fixed (bearishPercent s) 1,
                        Lit ''%''],
              dsignal = sentimentSignal sent\<rparr>])
     @ (case ivr of
          None \<Rightarrow> []
        | Some r \<Rightarrow>
            [\<lparr>dname = ''IV Rank'', dvalue = [Fixed (((r + 1) / 2) * 100) 0], dsignal = ivr\<rparr>])
     @ fundamentalDetails fo"

text \<open>One \<open>if (signal != null) { if (signal > t) push(bullish) else if (signal < -t)
  push(bearish) }\<close> block of \<open>buildExplanation\<close>: what it appends to \<open>highlights\<close>.\<close>

definition highlight :: "real option \<Rightarrow> real \<Rightarrow> string \<Rightarrow> string \<Rightarrow> string list" where
  "highlight v t bullish bearish =
     (case v of
        None \<Rightarrow> []
      | Some x \<Rightarrow> if x > t then [bullish] else if x < - t then [bearish] else [])"

definition highlights :: "IndicatorSignals \<Rightarrow> string list" where
  "highlights s =
     highlight (smaTrend s) 0.2
       ''Trend momentum: 50-day moving average is comfortably above the 200-day''
       ''Downtrend pressure: 50-day average is tracking below the 200-day''
     @ highlight (rsi s) 0.3
       ''RSI momentum remains bullish''
       ''RSI shows oversold momentum''
     @ highlight (macd s) 0.3
       ''MACD histogram is expanding above the signal line''
       ''MACD histogram is weakening below the signal line''
     @ highlight (volumeSurge s) 0.3
       ''Volume is expanding versus the 20-day average''
       ''Volume is contracting versus the 20-day average''
     @ highlight (sentiment s) 0.2
       ''News sentiment skewed bullish''
       ''News sentiment skewed cautious''
     @ highlight (ivRank s) 0.2
       ''Implied volatility running hot relative to its range''
       ''Implied volatility deeply discounted''"

text \<open>\<open>Array.prototype.join\<close> on strings.\<close>

fun join :: "string \<Rightarrow> string list \<Rightarrow> string" where
  "join sep [] = []"
| "join sep [x] = x"
| "join sep (x # y # ys) = x @ sep @ join sep (y # ys)"

definition buildExplanation :: "IndicatorSignals \<Rightarrow> string" where
  "buildExplanation s =
     (if length (highlights s) = 0
      then ''Signals are mixed with no single driver dominating the setup.''
      else join ''. '' (highlights s) @ ''.'')"

subsection \<open>Composite scorer\<close>

datatype signal_key = SmaTrend | Rsi | Macd | Bollinger | VolumeSurge | Sentiment | IvRank

fun weights :: "signal_key \<Rightarrow> real" where
  "weights SmaTrend = 0.2"
| "weights Rsi = 0.15"
| "weights Macd = 0.2"
| "weights Bollinger = 0.1"
| "weights VolumeSurge = 0.1"
| "weights Sentiment = 0.15"
| "weights IvRank = 0.1"

fun signal_at :: "IndicatorSignals \<Rightarrow> signal_key \<Rightarrow> real option" where
  "signal_at s SmaTrend = smaTrend s"
| "signal_at s Rsi = rsi s"
| "signal_at s Macd = macd s"
| "signal_at s Bollinger = bollinger s"
| "signal_at s VolumeSurge = volumeSurge s"
| "signal_at s Sentiment = sentiment s"
| "signal_at s IvRank = ivRank s"

text \<open>\<open>Object.keys(signals)\<close>: the seven keys, in the order the object literal lists
  them.\<close>

definition signal_keys :: "signal_key list" where
  "signal_keys = [SmaTrend, Rsi, Macd, Bollinger, VolumeSurge, Sentiment, IvRank]"

definition composite_step :: "IndicatorSignals \<Rightarrow> signal_key \<Rightarrow> real \<times> real \<Rightarrow> real \<times> real" where
  "composite_step s k acc =
     (case signal_at s k of
        None \<Rightarrow> acc
      | Some v \<Rightarrow> (fst acc + v * weights k, snd acc + weights k))"

definition weightedComposite :: "IndicatorSignals \<Rightarrow> real" where
  "weightedComposite s =
     (let acc = fold (composite_step s) signal_keys (0, 0);
          weightedSum = fst acc;
          totalWeight = snd acc
      in if totalWeight = 0 then 0 else clamp (weightedSum / totalWeight))"

subsection \<open>Upstream providers\<close>

datatype error =
    MissingApiKey
  | RequestFailed
  | MissingTimeSeries
  | OverviewUnavailable
  | NoPriceData

record PriceBar =
  date :: int
  close :: real
  volume :: real

text \<open>One entry of the daily series as parsed by \<open>Number.parseFloat\<close>; \<open>None\<close> is a
  value that is not a finite number. The date is its \<open>getTime()\<close>.\<close>

record raw_bar =
  rawDate :: int
  rawClose :: "real option"
  rawVolume :: "real option"

text \<open>The process environment: the three API keys.\<close>

record env =
  ALPHA_VANTAGE_KEY :: "string option"
  FINNHUB_KEY :: "string option"
  POLYGON_KEY :: "string option"

text \<open>What \<open>fetchJson\<close> yields for each provider and symbol. \<open>Inl\<close> is a failed
  request, or a payload on which the parsing code throws.
  \<^item> prices: the field \<open>Time Series (Daily)\<close>, \<open>None\<close> when it is missing;
  \<^item> overview: \<open>None\<close> for an empty object;
  \<^item> sentiment: \<open>None\<close> when \<open>data.sentiment\<close> is missing, else the parsed
    \<open>bullishPercent\<close> and \<open>bearishPercent\<close> (a missing field parses as 0);
  \<^item> volatility: the parsed \<open>implied_volatility\<close> of each of \<open>data.results\<close>
    (\<open>[]\<close> when the field is missing).\<close>

record upstream =
  priceResp :: "string \<Rightarrow> error + raw_bar list option"
  overviewResp :: "string \<Rightarrow> error + fundamentals option"
  sentimentResp :: "string \<Rightarrow> error + (real \<times> real) option"
  volatilityResp :: "string \<Rightarrow> error + real option list"

text \<open>\<open>!KEY\<close>: the variable is unset or empty.\<close>

definition missing_key :: "string option \<Rightarrow> bool" where
  "missing_key k = (case k of None \<Rightarrow> True | Some v \<Rightarrow> v = [])"

text \<open>\<open>Array.prototype.sort(compare)\<close>: a stable sort; \<open>a\<close> stays before \<open>b\<close> unless
  \<open>compare(a, b) > 0\<close>. Modelled as insertion sort.\<close>

fun insert_cmp :: "('a \<Rightarrow> 'a \<Rightarrow> real) \<Rightarrow> 'a \<Rightarrow> 'a list \<Rightarrow> 'a list" where
  "insert_cmp cmp x [] = [x]"
| "insert_cmp cmp x (y # ys) =
     (if cmp x y \<le> 0 then x # y # ys else y # insert_cmp cmp x ys)"

definition sort_cmp :: "('a \<Rightarrow> 'a \<Rightarrow> real) \<Rightarrow> 'a list \<Rightarrow> 'a list" where
  "sort_cmp cmp xs = foldr (insert_cmp cmp) xs []"

definition finite_bar :: "raw_bar \<Rightarrow> PriceBar option" where
  "finite_bar r =
     (case (rawClose r, rawVolume r) of
        (Some c, Some v) \<Rightarrow> Some \<lparr>date = rawDate r, close = c, volume = v\<rparr>
      | _ \<Rightarrow> None)"

definition fetchPriceHistory :: "env \<Rightarrow> upstream \<Rightarrow> string \<Rightarrow> error + PriceBar list" where
  "fetchPriceHistory e up symb =
     (if missing_key (ALPHA_VANTAGE_KEY e) then Inl MissingApiKey
      else
        case priceResp up symb of
          Inl err \<Rightarrow> Inl err
        | Inr None \<Rightarrow> Inl MissingTimeSeries
        | Inr (Some series) \<Rightarrow>
            Inr (sort_cmp (\<lambda>a b. real_of_int (date a) - real_of_int (date b))
                   (List.map_filter finite_bar series)))"

definition fetchFundamentals :: "env \<Rightarrow> upstream \<Rightarrow> string \<Rightarrow> error + fundamentals" where
  "fetchFundamentals e up symb =
     (if missing_key (ALPHA_VANTAGE_KEY e) then Inl MissingApiKey
      else
        case overviewResp up symb of
          Inl err \<Rightarrow> Inl err
        | Inr None \<Rightarrow> Inl OverviewUnavailable
        | Inr (Some f) \<Rightarrow> Inr f)"

text \<open>The two percents are taken as finite numbers. The source applies no
  \<open>Number.isFinite\<close> test to them (as it does to the bars of \<open>fetchPriceHistory\<close> and
  to the values of \<open>fetchVolatility\<close>): a percent that does not parse is NaN there, and
  so are the snapshot's score, the sentiment signal and the composite score built from
  it. That input has no value in this definition.\<close>

definition fetchSentiment :: "env \<Rightarrow> upstream \<Rightarrow> string \<Rightarrow> SentimentSnapshot option" where
  "fetchSentiment e up symb =
     (if missing_key (FINNHUB_KEY e) then None
      else
        case sentimentResp up symb of
          Inl err \<Rightarrow> None
        | Inr None \<Rightarrow> None
        | Inr (Some (bull, bear)) \<Rightarrow>
            Some \<lparr>bullishPercent = bull, bearishPercent = bear,
                  sentScore = clamp ((bull - bear) / 100)\<rparr>)"

text \<open>\<open>Math.max(...xs)\<close> and \<open>Math.min(...xs)\<close> on a non-empty list.\<close>

definition math_max :: "real list \<Rightarrow> real" where
  "math_max xs = foldl max (hd xs) (tl xs)"

definition math_min :: "real list \<Rightarrow> real" where
  "math_min xs = foldl min (hd xs) (tl xs)"

definition fetchVolatility :: "env \<Rightarrow> upstream \<Rightarrow> string \<Rightarrow> VolatilitySnapshot option" where
  "fetchVolatility e up symb =
     (if missing_key (POLYGON_KEY e) then None
      else
        case volatilityResp up symb of
          Inl err \<Rightarrow> None
        | Inr results \<Rightarrow>
            if length results = 0 then None
            else
              let ivValues = List.map_filter (\<lambda>v. v) results
              in if length ivValues = 0 then None
                 else Some \<lparr>currentIv = ivValues ! 0, lowIv = math_min ivValues,
                            highIv = math_max ivValues\<rparr>)"

subsection \<open>Signal assembly\<close>

definition BOLLINGER_PERIOD :: nat where
  "BOLLINGER_PERIOD = 20"

definition BOLLINGER_MULTIPLIER :: real where
  "BOLLINGER_MULTIPLIER = 2"

definition VOLUME_PERIOD :: nat where
  "VOLUME_PERIOD = 20"

text \<open>The part of \<open>getCompositeSignal\<close> after the four fetches have settled and the
  price series is known to be non-empty; \<open>stamp\<close> is the reading of \<open>new Date()\<close>.\<close>

definition compose ::
  "string \<Rightarrow> int \<Rightarrow> PriceBar list \<Rightarrow> fundamentals option \<Rightarrow> SentimentSnapshot option \<Rightarrow>
   VolatilitySnapshot option \<Rightarrow> CompositePick" where
  "compose symb stamp prices fund sent vol =
     (let closes = map close prices;
          volumes = map volume prices;
          price = (if closes = [] then None else Some (closes ! (length closes - 1)));
          sma50 = calculateSMA closes 50;
          sma200 = calculateSMA closes 200;
          rsiV = calculateRSI closes RSI_PERIOD;
          macdV = calculateMACD closes;
          bands = calculateBollinger closes BOLLINGER_PERIOD BOLLINGER_MULTIPLIER;
          volSurge = calculateVolumeSurge volumes VOLUME_PERIOD;
          ivr = calculateIvRank vol;
          indicatorSignals =
            \<lparr>smaTrend = smaSignal sma50 sma200,
             rsi = rsiSignal rsiV,
             macd = macdSignal macdV,
             bollinger = bollingerSignal price bands,
             volumeSurge = volSurge,
             sentiment = sentimentSignal sent,
             ivRank = ivr\<rparr>
      in \<lparr>symbol = symb,
          score = weightedComposite indicatorSignals,
          updatedAt = stamp,
          latestPrice = price,
          explanation = buildExplanation indicatorSignals,
          signals = indicatorSignals,
          details = buildDetails symb price sma50 sma200 rsiV macdV bands volSurge sent ivr fund\<rparr>)"

text \<open>\<open>Promise.all\<close> of the four fetches: it rejects only when \<open>fetchPriceHistory\<close>
  does, because \<open>fetchFundamentals\<close> carries its own \<open>.catch\<close> and the other two never
  reject.\<close>

definition getCompositeSignal :: "env \<Rightarrow> upstream \<Rightarrow> string \<Rightarrow> int \<Rightarrow> error + CompositePick" where
  "getCompositeSignal e up symb stamp =
     (case fetchPriceHistory e up symb of
        Inl err \<Rightarrow> Inl err
      | Inr prices \<Rightarrow>
          let fund = (case fetchFundamentals e up symb of Inl err \<Rightarrow> None | Inr f \<Rightarrow> Some f);
              sent = fetchSentiment e up symb;
              vol = fetchVolatility e up symb
          in if length prices = 0 then Inl NoPriceData
             else Inr (compose symb stamp prices fund sent vol))"

subsection \<open>Result cache and batch handler\<close>

text \<open>\<open>CachedSignal\<close>; its field \<open>updatedAt\<close> is named \<open>cachedAt\<close> here, apart from
  the payload's own \<open>updatedAt\<close>.\<close>

record CachedSignal =
  cachedAt :: int
  payload :: CompositePick

text \<open>The module state of the server: the cache, and a counter of the calls of
  \<open>getCompositeSignal\<close> made so far (instrumentation, not in the source).\<close>

record server_state =
  cache :: "string \<rightharpoonup> CachedSignal"
  assemblies :: nat

text \<open>The default of \<open>CACHE_TTL_MS\<close>, used when \<open>SIGNAL_CACHE_MS\<close> is unset.\<close>

definition CACHE_TTL_MS :: int where
  "CACHE_TTL_MS = 2 * 60 * 1000"

text \<open>The first half of \<open>loadSignal\<close>, up to the early return: the payload of an entry
  that is still fresh at \<open>now\<close>.\<close>

definition cached_fresh :: "(string \<rightharpoonup> CachedSignal) \<Rightarrow> int \<Rightarrow> int \<Rightarrow> string \<Rightarrow> CompositePick option" where
  "cached_fresh c ttl now symb =
     (case c symb of
        None \<Rightarrow> None
      | Some cached \<Rightarrow> if now - cachedAt cached < ttl then Some (payload cached) else None)"

text \<open>The second half: await the assembly, store its payload under the \<open>now\<close> read
  before, return it. A rejection leaves before \<open>cache.set\<close>.\<close>

definition assemble_and_store ::
  "env \<Rightarrow> upstream \<Rightarrow> server_state \<Rightarrow> string \<Rightarrow> int \<Rightarrow> int \<Rightarrow> (error + CompositePick) \<times> server_state" where
  "assemble_and_store e up st symb now stamp =
     (case getCompositeSignal e up symb stamp of
        Inl err \<Rightarrow> (Inl err, st\<lparr>assemblies := assemblies st + 1\<rparr>)
      | Inr p \<Rightarrow>
          (Inr p, st\<lparr>cache := (cache st)(symb \<mapsto> \<lparr>cachedAt = now, payload = p\<rparr>),
                      assemblies := assemblies st + 1\<rparr>))"

definition loadSignal ::
  "env \<Rightarrow> upstream \<Rightarrow> int \<Rightarrow> server_state \<Rightarrow> string \<Rightarrow> int \<Rightarrow> int \<Rightarrow> (error + CompositePick) \<times> server_state" where
  "loadSignal e up ttl st symb now stamp =
     (case cached_fresh (cache st) ttl now symb of
        Some p \<Rightarrow> (Inr p, st)
      | None \<Rightarrow> assemble_and_store e up st symb now stamp)"

text \<open>One symbol of a batch with its two clock readings: \<open>readAt\<close> is the \<open>Date.now()\<close>
  of \<open>loadSignal\<close>, \<open>settledAt\<close> the \<open>new Date()\<close> taken when its assembly settles (in
  \<open>getCompositeSignal\<close> on success, in the \<open>catch\<close> block on failure).\<close>

record pick_request =
  reqSymbol :: string
  readAt :: int
  settledAt :: int

definition noSignals :: IndicatorSignals where
  "noSignals =
     \<lparr>smaTrend = None, rsi = None, macd = None, bollinger = None, volumeSurge = None,
      sentiment = None, ivRank = None\<rparr>"

text \<open>The object the \<open>catch\<close> block of the handler returns.\<close>

definition degraded :: "string \<Rightarrow> int \<Rightarrow> CompositePick" where
  "degraded symb t =
     \<lparr>symbol = symb, score = 0, updatedAt = t, latestPrice = None,
      explanation = ''Signal unavailable due to upstream data error.'',
      signals = noSignals, details = []\<rparr>"

text \<open>The handler maps every symbol to an async function at once, so each
  \<open>loadSignal\<close> reads the cache as it is when the handler starts (\<open>st0\<close>), before any
  assembly of the batch settles.\<close>

definition pickOrPlaceholder ::
  "env \<Rightarrow> upstream \<Rightarrow> int \<Rightarrow> server_state \<Rightarrow> pick_request \<Rightarrow> error + CompositePick" where
  "pickOrPlaceholder e up ttl st0 r =
     (case fst (loadSignal e up ttl st0 (reqSymbol r) (readAt r) (settledAt r)) of
        Inr p \<Rightarrow> Inr p
      | Inl err \<Rightarrow> Inr (degraded (reqSymbol r) (settledAt r)))"

fun promise_all :: "(error + 'a) list \<Rightarrow> error + 'a list" where
  "promise_all [] = Inr []"
| "promise_all (x # xs) =
     (case x of
        Inl err \<Rightarrow> Inl err
      | Inr v \<Rightarrow> (case promise_all xs of Inl err \<Rightarrow> Inl err | Inr vs \<Rightarrow> Inr (v # vs)))"

text \<open>The effect on the server state of one request of the batch settling: nothing on
  a hit, the second half of \<open>loadSignal\<close> otherwise. The requests are taken to settle in
  the order of the list.\<close>

definition settle ::
  "env \<Rightarrow> upstream \<Rightarrow> int \<Rightarrow> server_state \<Rightarrow> pick_request \<Rightarrow> server_state \<Rightarrow> server_state" where
  "settle e up ttl st0 r st =
     (case cached_fresh (cache st0) ttl (readAt r) (reqSymbol r) of
        Some p \<Rightarrow> st
      | None \<Rightarrow> snd (assemble_and_store e up st (reqSymbol r) (readAt r) (settledAt r)))"

record picks_body =
  bodyUpdatedAt :: int
  bodySymbols :: "string list"
  picks :: "CompositePick list"

datatype http_response = Ok200 picks_body | Error500 string

text \<open>The handler of \<open>/api/picks\<close> for the symbols of \<open>reqs\<close>, as resolved from the
  query string or the default watch list (the parsing is not modelled); \<open>sentAt\<close> is
  the reading of \<open>new Date()\<close> for the body. The outer \<open>catch\<close> answers with status
  500 when \<open>Promise.all\<close> rejects.\<close>

definition getPicks ::
  "env \<Rightarrow> upstream \<Rightarrow> int \<Rightarrow> server_state \<Rightarrow> pick_request list \<Rightarrow> int \<Rightarrow> http_response \<times> server_state" where
  "getPicks e up ttl st0 reqs sentAt =
     (let st' = fold (settle e up ttl st0) reqs st0
      in case promise_all (map (pickOrPlaceholder e up ttl st0) reqs) of
           Inl err \<Rightarrow> (Error500 ''Unable to generate picks at this time.'', st')
         | Inr ps \<Rightarrow>
             (Ok200 \<lparr>bodyUpdatedAt = sentAt, bodySymbols = map reqSymbol reqs,
                     picks = sort_cmp (\<lambda>a b. score b - score a) ps\<rparr>, st'))"

text \<open>The value the async callback of one symbol resolves to: it never rejects.\<close>

definition settled_pick :: "env \<Rightarrow> upstream \<Rightarrow> int \<Rightarrow> server_state \<Rightarrow> pick_request \<Rightarrow> CompositePick" where
  "settled_pick e up ttl st0 r =
     (case cached_fresh (cache st0) ttl (readAt r) (reqSymbol r) of
        Some p \<Rightarrow> p
      | None \<Rightarrow>
          (case getCompositeSignal e up (reqSymbol r) (settledAt r) of
             Inr p \<Rightarrow> p
           | Inl err \<Rightarrow> degraded (reqSymbol r) (settledAt r)))"

text \<open>The \<open>picks\<close> array of a response (empty for the error response).\<close>

definition response_picks :: "http_response \<Rightarrow> CompositePick list" where
  "response_picks resp = (case resp of Ok200 body \<Rightarrow> picks body | Error500 msg \<Rightarrow> [])"

section \<open>The specification's wording\<close>

text \<open>The composite score as the specification words it: the sum of every present
  signal times its weight, over the sum of the weights of the present signals.\<close>

definition contribution :: "real option \<Rightarrow> real \<Rightarrow> real" where
  "contribution v w = (case v of None \<Rightarrow> 0 | Some x \<Rightarrow> x * w)"

definition present_weight :: "real option \<Rightarrow> real \<Rightarrow> real" where
  "present_weight v w = (case v of None \<Rightarrow> 0 | Some x \<Rightarrow> w)"

definition spec_weighted_sum :: "IndicatorSignals \<Rightarrow> real" where
  "spec_weighted_sum s =
     contribution (smaTrend s) 0.20 + contribution (rsi s) 0.15 + contribution (macd s) 0.20
     + contribution (bollinger s) 0.10 + contribution (volumeSurge s) 0.10
     + contribution (sentiment s) 0.15 + contribution (ivRank s) 0.10"

definition spec_total_weight :: "IndicatorSignals \<Rightarrow> real" where
  "spec_total_weight s =
     present_weight (smaTrend s) 0.20 + present_weight (rsi s) 0.15
     + present_weight (macd s) 0.20 + present_weight (bollinger s) 0.10
     + present_weight (volumeSurge s) 0.10 + present_weight (sentiment s) 0.15
     + present_weight (ivRank s) 0.10"

definition all_absent :: "IndicatorSignals \<Rightarrow> bool" where
  "all_absent s \<longleftrightarrow>
     smaTrend s = None \<and> rsi s = None \<and> macd s = None \<and> bollinger s = None \<and>
     volumeSurge s = None \<and> sentiment s = None \<and> ivRank s = None"

text \<open>The narrative as the specification words it: for each of the six narrated
  signals whose absolute value exceeds its threshold, one clause, bullish or bearish;
  the clauses joined with \<open>". "\<close>; the neutral sentence when there is none. The band
  position has no clause.\<close>

fun threshold :: "signal_key \<Rightarrow> real" where
  "threshold SmaTrend = 0.2"
| "threshold Sentiment = 0.2"
| "threshold IvRank = 0.2"
| "threshold Rsi = 0.3"
| "threshold Macd = 0.3"
| "threshold VolumeSurge = 0.3"
| "threshold Bollinger = 0"

fun bullish_clause :: "signal_key \<Rightarrow> string" where
  "bullish_clause SmaTrend =
     ''Trend momentum: 50-day moving average is comfortably above the 200-day''"
| "bullish_clause Rsi = ''RSI momentum remains bullish''"
| "bullish_clause Macd = ''MACD histogram is expanding above the signal line''"
| "bullish_clause VolumeSurge = ''Volume is expanding versus the 20-day average''"
| "bullish_clause Sentiment = ''News sentiment skewed bullish''"
| "bullish_clause IvRank = ''Implied volatility running hot relative to its range''"
| "bullish_clause Bollinger = []"

fun bearish_clause :: "signal_key \<Rightarrow> string" where
  "bearish_clause SmaTrend =
     ''Downtrend pressure: 50-day average is tracking below the 200-day''"
| "bearish_clause Rsi = ''RSI shows oversold momentum''"
| "bearish_clause Macd = ''MACD histogram is weakening below the signal line''"
| "bearish_clause VolumeSurge = ''Volume is contracting versus the 20-day average''"
| "bearish_clause Sentiment = ''News sentiment skewed cautious''"
| "bearish_clause IvRank = ''Implied volatility deeply discounted''"
| "bearish_clause Bollinger = []"

definition narrated_keys :: "signal_key list" where
  "narrated_keys = [SmaTrend, Rsi, Macd, VolumeSurge, Sentiment, IvRank]"

definition spec_clause :: "IndicatorSignals \<Rightarrow> signal_key \<Rightarrow> string list" where
  "spec_clause s k =
     (case signal_at s k of
        None \<Rightarrow> []
      | Some x \<Rightarrow>
          if \<bar>x\<bar> > threshold k then [if x > 0 then bullish_clause k else bearish_clause k]
          else [])"

definition spec_clauses :: "IndicatorSignals \<Rightarrow> string list" where
  "spec_clauses s = concat (map (spec_clause s) narrated_keys)"

definition spec_neutral_sentence :: string where
  "spec_neutral_sentence = ''signals are mixed, no single driver dominating''"

definition spec_buildExplanation :: "IndicatorSignals \<Rightarrow> string" where
  "spec_buildExplanation s =
     (if spec_clauses s = [] then spec_neutral_sentence else join ''. '' (spec_clauses s))"

text \<open>The explanation of the degraded placeholder as the specification quotes it.\<close>

definition spec_unavailable_explanation :: string where
  "spec_unavailable_explanation = ''signal unavailable due to upstream data error''"

text \<open>The mandatory price history cannot be obtained: the API key is missing, the
  provider fails, the series is absent, or it holds no bar with finite numbers.\<close>

definition price_history_unavailable :: "env \<Rightarrow> upstream \<Rightarrow> string \<Rightarrow> bool" where
  "price_history_unavailable e up symb \<longleftrightarrow>
     missing_key (ALPHA_VANTAGE_KEY e) \<or>
     (case priceResp up symb of
        Inl err \<Rightarrow> True
      | Inr None \<Rightarrow> True
      | Inr (Some series) \<Rightarrow> List.map_filter finite_bar series = [])"

text \<open>The running averages of the oscillator as the specification words them: the
  gains and the losses of the successive differences, the plain average of the first
  \<open>period\<close> of them as seed, then Wilder's recurrence
  \<open>avg' = (avg * (period - 1) + amount) / period\<close> over the rest.\<close>

fun successive_differences :: "jsnum list \<Rightarrow> jsnum list" where
  "successive_differences (a # b # xs) = jsub b a # successive_differences (b # xs)"
| "successive_differences xs = []"

definition gain_of :: "jsnum \<Rightarrow> jsnum" where
  "gain_of c = jmax c (Fin 0)"

definition loss_of :: "jsnum \<Rightarrow> jsnum" where
  "loss_of c = jmax (jneg c) (Fin 0)"

fun wilder :: "nat \<Rightarrow> jsnum \<Rightarrow> jsnum list \<Rightarrow> jsnum" where
  "wilder period avg [] = avg"
| "wilder period avg (x # xs) =
     wilder period (jdiv (jadd (jmul avg (Fin (real period - 1))) x) (Fin (real period))) xs"

definition spec_running_average :: "nat \<Rightarrow> jsnum list \<Rightarrow> jsnum" where
  "spec_running_average period amounts =
     wilder period (jdiv (foldl jadd (Fin 0) (take period amounts)) (Fin (real period)))
       (drop period amounts)"

definition spec_avgGain :: "nat \<Rightarrow> jsnum list \<Rightarrow> jsnum" where
  "spec_avgGain period vs = spec_running_average period (map gain_of (successive_differences vs))"

definition spec_avgLoss :: "nat \<Rightarrow> jsnum list \<Rightarrow> jsnum" where
  "spec_avgLoss period vs = spec_running_average period (map loss_of (successive_differences vs))"

section \<open>Concrete inputs\<close>

definition rising15 :: "real list" where
  "rising15 = [1, 2, 3, 4, 5, 6, 7, 8, 9, 10, 11, 12, 13, 14, 15]"

text \<open>Only the sentiment signal is present, at 0.6.\<close>

definition onlySentiment :: IndicatorSignals where
  "onlySentiment = noSignals\<lparr>sentiment := Some 0.6\<rparr>"

definition trendAndSentiment :: IndicatorSignals where
  "trendAndSentiment = noSignals\<lparr>smaTrend := Some 0.5, sentiment := Some (- 0.6)\<rparr>"

definition env_all_keys :: env where
  "env_all_keys =
     \<lparr>ALPHA_VANTAGE_KEY = Some ''av'', FINNHUB_KEY = Some ''fh'', POLYGON_KEY = Some ''pg''\<rparr>"

definition up_empty_series :: upstream where
  "up_empty_series =
     \<lparr>priceResp = (\<lambda>s. Inr (Some [])), overviewResp = (\<lambda>s. Inl RequestFailed),
      sentimentResp = (\<lambda>s. Inr None), volatilityResp = (\<lambda>s. Inr [])\<rparr>"

definition up_down :: upstream where
  "up_down =
     \<lparr>priceResp = (\<lambda>s. Inl RequestFailed), overviewResp = (\<lambda>s. Inl RequestFailed),
      sentimentResp = (\<lambda>s. Inl RequestFailed), volatilityResp = (\<lambda>s. Inl RequestFailed)\<rparr>"

definition up_one_bar :: upstream where
  "up_one_bar =
     \<lparr>priceResp =
        (\<lambda>s. Inr (Some [\<lparr>rawDate = 1, rawClose = Some 100, rawVolume = Some 1000\<rparr>])),
      overviewResp = (\<lambda>s. Inl RequestFailed),
      sentimentResp = (\<lambda>s. Inl RequestFailed), volatilityResp = (\<lambda>s. Inl RequestFailed)\<rparr>"

definition up_sentiment_80_20 :: upstream where
  "up_sentiment_80_20 =
     \<lparr>priceResp = (\<lambda>s. Inl RequestFailed), overviewResp = (\<lambda>s. Inl RequestFailed),
      sentimentResp = (\<lambda>s. Inr (Some (80, 20))), volatilityResp = (\<lambda>s. Inl RequestFailed)\<rparr>"

text \<open>A world where \<open>ZZZ\<close> has an empty series, every other symbol one bar, and only
  \<open>MSFT\<close> and \<open>NVDA\<close> have a sentiment snapshot.\<close>

definition up_mixed :: upstream where
  "up_mixed =
     \<lparr>priceResp =
        (\<lambda>s. if s = ''ZZZ'' then Inr (Some [])
             else Inr (Some [\<lparr>rawDate = 1, rawClose = Some 100, rawVolume = Some 1000\<rparr>])),
      overviewResp = (\<lambda>s. Inl RequestFailed),
      sentimentResp =
        (\<lambda>s. if s = ''MSFT'' then Inr (Some (80, 20))
             else if s = ''NVDA'' then Inr (Some (10, 60))
             else Inl RequestFailed),
      volatilityResp = (\<lambda>s. Inl RequestFailed)\<rparr>"

definition st_empty :: server_state where
  "st_empty = \<lparr>cache = Map.empty, assemblies = 0\<rparr>"

definition one_bar_pick :: "string \<Rightarrow> int \<Rightarrow> CompositePick" where
  "one_bar_pick symb t =
     compose symb t [\<lparr>date = 1, close = 100, volume = 1000\<rparr>] None None None"

text \<open>A cache holding one entry for \<open>AAPL\<close>, stored at time 0 by an assembly that
  finished at time 40.\<close>

definition st_stale :: server_state where
  "st_stale =
     \<lparr>cache = [''AAPL'' \<mapsto> \<lparr>cachedAt = 0, payload = one_bar_pick ''AAPL'' 40\<rparr>],
      assemblies = 1\<rparr>"

definition reqs3 :: "pick_request list" where
  "reqs3 =
     [\<lparr>reqSymbol = ''NVDA'', readAt = 1000, settledAt = 1040\<rparr>,
      \<lparr>reqSymbol = ''ZZZ'', readAt = 1000, settledAt = 1010\<rparr>,
      \<lparr>reqSymbol = ''MSFT'', readAt = 1001, settledAt = 1050\<rparr>]"

definition reqZZZ :: pick_request where
  "reqZZZ = \<lparr>reqSymbol = ''ZZZ'', readAt = 1000, settledAt = 1005\<rparr>"

definition reqAAPL :: pick_request where
  "reqAAPL = \<lparr>reqSymbol = ''AAPL'', readAt = 200000, settledAt = 200050\<rparr>"

text \<open>The price series of the examples of the oscillator: one that rises and falls
  with two steps of the second loop, one that only falls, and one of finite prices
  whose gains and losses both overflow.\<close>

definition mixed17 :: "jsnum list" where
  "mixed17 = map Fin [10, 12, 11, 13, 12, 14, 13, 15, 14, 16, 15, 17, 16, 18, 17, 31, 17]"

definition falling16 :: "jsnum list" where
  "falling16 = map Fin [16, 15, 14, 13, 12, 11, 10, 9, 8, 7, 6, 5, 4, 3, 2, 1]"

definition swing15 :: "jsnum list" where
  "swing15 = [Fin (2 ^ 1023), Fin 1, Fin (2 ^ 1023), Fin 1, Fin (2 ^ 1023), Fin 1,
     Fin (2 ^ 1023), Fin 1, Fin (2 ^ 1023), Fin 1, Fin (2 ^ 1023), Fin 1,
     Fin (2 ^ 1023), Fin 1, Fin (2 ^ 1023)]"

definition up_sentiment_250_20 :: upstream where
  "up_sentiment_250_20 =
     \<lparr>priceResp = (\<lambda>s. Inl RequestFailed), overviewResp = (\<lambda>s. Inl RequestFailed),
      sentimentResp = (\<lambda>s. Inr (Some (250, 20))), volatilityResp = (\<lambda>s. Inl RequestFailed)\<rparr>"

text \<open>The cache after a first read of \<open>AAPL\<close> at time 0 whose assembly settled at time
  120000, and after one whose assembly settled at time 500000.\<close>

definition st_slow :: server_state where
  "st_slow =
     \<lparr>cache = [''AAPL'' \<mapsto> \<lparr>cachedAt = 0, payload = one_bar_pick ''AAPL'' 120000\<rparr>],
      assemblies = 1\<rparr>"

definition st_ahead :: server_state where
  "st_ahead =
     \<lparr>cache = [''AAPL'' \<mapsto> \<lparr>cachedAt = 0, payload = one_bar_pick ''AAPL'' 500000\<rparr>],
      assemblies = 1\<rparr>"

section \<open>Auxiliary notions of the proofs\<close>

text \<open>The two loop bodies of the oscillator as functions of the change alone.\<close>

definition seed_on :: "jsnum \<Rightarrow> jsnum \<times> jsnum \<Rightarrow> jsnum \<times> jsnum" where
  "seed_on c acc = (if jge c (Fin 0) then (jadd (fst acc) c, snd acc)
                    else (fst acc, jadd (snd acc) (jabs c)))"

definition wilder_on :: "nat \<Rightarrow> jsnum \<Rightarrow> jsnum \<times> jsnum \<Rightarrow> jsnum \<times> jsnum" where
  "wilder_on period c acc =
     (jdiv (jadd (jmul (fst acc) (Fin (real period - 1))) (gain_of c)) (Fin (real period)),
      jdiv (jadd (jmul (snd acc) (Fin (real period - 1))) (loss_of c)) (Fin (real period)))"

text \<open>A number that an operation can return: finite values lie inside the range.\<close>

definition normal :: "jsnum \<Rightarrow> bool" where
  "normal x = (case x of Fin r \<Rightarrow> - OVERFLOW_AT < r \<and> r < OVERFLOW_AT | _ \<Rightarrow> True)"

definition nonneg_or_inf :: "jsnum \<Rightarrow> bool" where
  "nonneg_or_inf x = (case x of Fin r \<Rightarrow> 0 \<le> r | PInf \<Rightarrow> True | _ \<Rightarrow> False)"

section \<open>Properties of the indicator library\<close>

lemma length_macd_series: "length (macd_series vs) = length vs - 26"
proof -
  have "\<And>acc. length (snd (snd (fold (macd_step vs k1 k2) js acc)))
      = length (snd (snd acc)) + length js" for k1 k2 js
    by (induction js) (auto simp: macd_step_def Let_def split: prod.splits)
  then show ?thesis by (simp add: macd_series_def Let_def)
qed

lemma calculateMACD_None_iff: "calculateMACD vs = None \<longleftrightarrow> length vs < 35"
proof (cases "length vs < 35")
  case True
  then show ?thesis by (simp add: calculateMACD_def)
next
  case False
  then have "\<not> length (macd_series vs) < 9" by (simp add: length_macd_series)
  with False show ?thesis by (simp add: calculateMACD_def Let_def)
qed

text \<open>
  C5. Every indicator function returns absence on an input shorter than its window:
  length < period for the simple and the exponential moving average and for the band
  statistics, length \<le> period for the oscillator and the volume-anomaly ratio,
  length < 35 for the trend-convergence indicator. None of them has a failing branch:
  the result is a number (or record) or absence, and for the first five absence is
  returned on short inputs only.
\<close>

theorem indicators_total:
  "(calculateSMA vs period = None \<longleftrightarrow> length vs < period) \<and>
   (calculateEMA vs period = None \<longleftrightarrow> length vs < period) \<and>
   (calculateRSI vs period = None \<longleftrightarrow> length vs \<le> period) \<and>
   (calculateMACD vs = None \<longleftrightarrow> length vs < 35) \<and>
   (calculateBollinger vs period k = None \<longleftrightarrow> length vs < period) \<and>
   (length vs \<le> period \<longrightarrow> calculateVolumeSurge vs period = None)"
proof (intro conjI)
  show "calculateSMA vs period = None \<longleftrightarrow> length vs < period"
    by (simp add: calculateSMA_def)
  show "calculateEMA vs period = None \<longleftrightarrow> length vs < period"
    by (simp add: calculateEMA_def Let_def)
  show "calculateRSI vs period = None \<longleftrightarrow> length vs \<le> period"
    by (simp add: calculateRSI_def Let_def)
  show "calculateMACD vs = None \<longleftrightarrow> length vs < 35"
    by (rule calculateMACD_None_iff)
  show "calculateBollinger vs period k = None \<longleftrightarrow> length vs < period"
    by (simp add: calculateBollinger_def Let_def)
  show "length vs \<le> period \<longrightarrow> calculateVolumeSurge vs period = None"
    by (simp add: calculateVolumeSurge_def)
qed

theorem indicators_total_witness:
  "calculateSMA [1, 2, 3] 5 = None \<and> calculateEMA [1, 2, 3] 5 = None \<and>
   calculateRSI [1, 2, 3] 5 = None \<and> calculateMACD [1, 2, 3] = None \<and>
   calculateBollinger [1, 2, 3] 5 2 = None \<and> calculateVolumeSurge [1, 2, 3] 5 = None \<and>
   calculateSMA [1, 2, 3] 2 \<noteq> None \<and> calculateRSI [1, 2, 3] 2 \<noteq> None"
  using indicators_total [of "[1, 2, 3]" 5 2] indicators_total [of "[1, 2, 3]" 2 2] by simp

lemma calculateSMA_example: "calculateSMA [1, 2, 3, 6] 2 = Some 4.5"
  by (simp add: calculateSMA_def slice_from_def slice_def rel_index_def rollingAverage_def)

lemma calculateVolumeSurge_example: "calculateVolumeSurge [10, 20, 30, 30] 2 = Some 0.2"
  by (simp add: calculateVolumeSurge_def slice_def rel_index_def rollingAverage_def
      clamp_def clamp3_def)

subsection \<open>The oscillator on numbers that overflow\<close>

lemma OVERFLOW_AT_pos: "0 < OVERFLOW_AT"
  by (simp add: OVERFLOW_AT_def)

lemma length_successive_differences: "length (successive_differences vs) = length vs - 1"
  by (induction vs rule: successive_differences.induct) simp_all

lemma nth_successive_differences:
  "Suc i < length vs \<Longrightarrow> successive_differences vs ! i = jsub (vs ! Suc i) (vs ! i)"
proof (induction vs arbitrary: i rule: successive_differences.induct)
  case (1 a b xs)
  then show ?case by (cases i) simp_all
qed simp_all

lemma changes_by_index:
  assumes "1 \<le> a" "b \<le> length vs"
  shows "map (\<lambda>i. jsub (vs ! i) (vs ! (i - 1))) [a ..< b]
         = take (b - a) (drop (a - 1) (successive_differences vs))"
proof (rule nth_equalityI)
  show "length (map (\<lambda>i. jsub (vs ! i) (vs ! (i - 1))) [a ..< b])
      = length (take (b - a) (drop (a - 1) (successive_differences vs)))"
    using assms by (simp add: length_successive_differences)
next
  fix i assume "i < length (map (\<lambda>i. jsub (vs ! i) (vs ! (i - 1))) [a ..< b])"
  then have i: "i < b - a" by simp
  with assms have "Suc (a - 1 + i) < length vs" by simp
  from nth_successive_differences [OF this] i assms
  show "map (\<lambda>i. jsub (vs ! i) (vs ! (i - 1))) [a ..< b] ! i
      = take (b - a) (drop (a - 1) (successive_differences vs)) ! i"
    by (simp add: length_successive_differences)
qed

lemma seed_fold_changes:
  "fold (rsi_seed_step_num vs) js acc
     = fold seed_on (map (\<lambda>i. jsub (vs ! i) (vs ! (i - 1))) js) acc"
  by (induction js arbitrary: acc) (simp_all add: rsi_seed_step_num_def seed_on_def Let_def)

lemma wilder_fold_changes:
  "fold (rsi_wilder_step_num vs period) js acc
     = fold (wilder_on period) (map (\<lambda>i. jsub (vs ! i) (vs ! (i - 1))) js) acc"
  by (induction js arbitrary: acc)
     (simp_all add: rsi_wilder_step_num_def wilder_on_def gain_of_def loss_of_def Let_def)

lemma normal_overflow: "normal (overflow r)"
  by (simp add: normal_def overflow_def)

lemma normal_jadd: "normal (jadd x y)"
  by (cases x; cases y) (simp_all add: normal_overflow, simp_all add: normal_def)

lemma jadd_zero: "normal x \<Longrightarrow> jadd x (Fin 0) = x"
  by (cases x) (simp_all add: normal_def overflow_def)

lemma seed_on_sums:
  assumes "c \<noteq> NaN" "normal (fst acc)" "normal (snd acc)"
  shows "seed_on c acc = (jadd (fst acc) (gain_of c), jadd (snd acc) (loss_of c))"
  using assms by (cases c) (auto simp: seed_on_def gain_of_def loss_of_def jadd_zero max_def)

lemma seed_fold_sums:
  assumes "NaN \<notin> set cs" "normal g" "normal l"
  shows "fold seed_on cs (g, l) = (foldl jadd g (map gain_of cs), foldl jadd l (map loss_of cs))"
  using assms
proof (induction cs arbitrary: g l)
  case Nil
  then show ?case by simp
next
  case (Cons c cs)
  have c: "c \<noteq> NaN" and cs: "NaN \<notin> set cs" using Cons.prems(1) by auto
  have "seed_on c (g, l) = (jadd g (gain_of c), jadd l (loss_of c))"
    using seed_on_sums [OF c, of "(g, l)"] Cons.prems by simp
  with Cons.IH [OF cs, of "jadd g (gain_of c)" "jadd l (loss_of c)"] show ?case
    by (simp add: normal_jadd)
qed

lemma wilder_fold_spec:
  "fold (wilder_on period) cs (a, b)
     = (wilder period a (map gain_of cs), wilder period b (map loss_of cs))"
  by (induction cs arbitrary: a b) (simp_all add: wilder_on_def)

lemma finite_differences_not_NaN:
  "list_all is_finite vs \<Longrightarrow> NaN \<notin> set (successive_differences vs)"
proof (induction vs rule: successive_differences.induct)
  case (1 a b xs)
  then show ?case by (cases a; cases b) (auto simp: jsub_def overflow_def)
qed simp_all

lemma rsi_averages_num_spec:
  assumes "period < length vs" "list_all is_finite vs"
  shows "rsi_averages_num vs period =
     (spec_running_average period (map gain_of (successive_differences vs)),
      spec_running_average period (map loss_of (successive_differences vs)))"
proof -
  let ?cs = "successive_differences vs"
  have seed_idx: "map (\<lambda>i. jsub (vs ! i) (vs ! (i - 1))) [1 ..< period + 1] = take period ?cs"
    using changes_by_index [of 1 "period + 1" vs] assms(1) by simp
  have rest_idx: "map (\<lambda>i. jsub (vs ! i) (vs ! (i - 1))) [period + 1 ..< length vs]
      = drop period ?cs"
    using changes_by_index [of "period + 1" "length vs" vs] assms(1)
    by (simp add: length_successive_differences)
  have nn: "NaN \<notin> set (take period ?cs)"
    using finite_differences_not_NaN [OF assms(2)] by (meson in_set_takeD)
  have z: "normal (Fin 0)" using OVERFLOW_AT_pos by (simp add: normal_def)
  have seed: "fold (rsi_seed_step_num vs) [1 ..< period + 1] (Fin 0, Fin 0)
      = (foldl jadd (Fin 0) (map gain_of (take period ?cs)),
         foldl jadd (Fin 0) (map loss_of (take period ?cs)))"
    by (simp only: seed_fold_changes seed_idx seed_fold_sums [OF nn z z])
  show ?thesis
    unfolding rsi_averages_num_def Let_def seed fst_conv snd_conv wilder_fold_changes
      rest_idx wilder_fold_spec spec_running_average_def take_map drop_map
    by (rule refl)
qed

lemma nonneg_overflow: "0 \<le> r \<Longrightarrow> nonneg_or_inf (overflow r)"
  using OVERFLOW_AT_pos by (simp add: nonneg_or_inf_def overflow_def)

lemma nonneg_overflow_case:
  "0 \<le> r \<Longrightarrow> (case overflow r of Fin r \<Rightarrow> 0 \<le> r | PInf \<Rightarrow> True | _ \<Rightarrow> False)"
  using nonneg_overflow [of r] by (simp add: nonneg_or_inf_def)

lemma nonneg_jadd: "nonneg_or_inf x \<Longrightarrow> nonneg_or_inf y \<Longrightarrow> nonneg_or_inf (jadd x y)"
  by (cases x; cases y) (simp_all add: nonneg_or_inf_def nonneg_overflow_case)

lemma nonneg_jmul: "nonneg_or_inf x \<Longrightarrow> 0 < k \<Longrightarrow> nonneg_or_inf (jmul x (Fin k))"
  by (cases x) (simp_all add: nonneg_or_inf_def nonneg_overflow_case)

lemma nonneg_jdiv: "nonneg_or_inf x \<Longrightarrow> 0 < k \<Longrightarrow> nonneg_or_inf (jdiv x (Fin k))"
  by (cases x) (simp_all add: nonneg_or_inf_def nonneg_overflow_case)

lemma nonneg_gain_of: "c \<noteq> NaN \<Longrightarrow> nonneg_or_inf (gain_of c)"
  by (cases c) (simp_all add: gain_of_def nonneg_or_inf_def)

lemma nonneg_loss_of: "c \<noteq> NaN \<Longrightarrow> nonneg_or_inf (loss_of c)"
  by (cases c) (simp_all add: loss_of_def nonneg_or_inf_def)

lemma nonneg_foldl_jadd:
  "nonneg_or_inf a \<Longrightarrow> list_all nonneg_or_inf xs \<Longrightarrow> nonneg_or_inf (foldl jadd a xs)"
  by (induction xs arbitrary: a) (simp_all add: nonneg_jadd)

lemma nonneg_wilder:
  "1 < period \<Longrightarrow> nonneg_or_inf a \<Longrightarrow> list_all nonneg_or_inf xs
     \<Longrightarrow> nonneg_or_inf (wilder period a xs)"
  by (induction xs arbitrary: a) (simp_all add: nonneg_jadd nonneg_jmul nonneg_jdiv)

lemma nonneg_spec_running_average:
  assumes "1 < period" "list_all nonneg_or_inf xs"
  shows "nonneg_or_inf (spec_running_average period xs)"
proof -
  have t: "list_all nonneg_or_inf (take period xs)" and d: "list_all nonneg_or_inf (drop period xs)"
    using assms(2) by (auto simp: list_all_iff dest: in_set_takeD in_set_dropD)
  have "nonneg_or_inf (Fin 0)" by (simp add: nonneg_or_inf_def)
  from nonneg_foldl_jadd [OF this t] have "nonneg_or_inf (jdiv (foldl jadd (Fin 0) (take period xs)) (Fin (real period)))"
    using assms(1) by (intro nonneg_jdiv) simp_all
  from nonneg_wilder [OF assms(1) this d] show ?thesis
    by (simp add: spec_running_average_def)
qed

lemma rsi_value_range:
  assumes "nonneg_or_inf g" "nonneg_or_inf l"
  shows "(g = PInf \<and> l = PInf \<longrightarrow> rsi_value g l = NaN) \<and>
         (\<not> (g = PInf \<and> l = PInf) \<longrightarrow> (\<exists>x. rsi_value g l = Fin x \<and> 0 \<le> x \<and> x \<le> 100))"
proof (cases l)
  case (Fin b)
  note l = this
  show ?thesis
  proof (cases "b = 0")
    case True
    with l show ?thesis by (simp add: rsi_value_def)
  next
    case False
    with l assms(2) have b: "0 < b" by (simp add: nonneg_or_inf_def)
    show ?thesis
    proof (cases g)
      case (Fin a)
      with assms(1) have a: "0 \<le> a" by (simp add: nonneg_or_inf_def)
      have q: "0 \<le> a / b" using a b by simp
      show ?thesis
      proof (cases "OVERFLOW_AT \<le> a / b")
        case True
        with Fin l b show ?thesis
          by (simp add: rsi_value_def overflow_def jsub_def OVERFLOW_AT_def)
      next
        case nov: False
        then have rs: "jdiv g l = Fin (a / b)" using Fin l b q OVERFLOW_AT_pos
          by (simp add: overflow_def)
        show ?thesis
        proof (cases "OVERFLOW_AT \<le> 1 + a / b")
          case True
          with rs q OVERFLOW_AT_pos l b show ?thesis
            by (simp add: rsi_value_def overflow_def jsub_def OVERFLOW_AT_def)
        next
          case False
          then have s: "jadd (Fin 1) (jdiv g l) = Fin (1 + a / b)"
            using rs q OVERFLOW_AT_pos by (simp add: overflow_def)
          have ge1: "1 \<le> 1 + a / b" using q by simp
          have le: "100 / (1 + a / b) \<le> 100 / 1"
            by (rule divide_left_mono) (use ge1 in simp_all)
          have pos: "0 < 100 / (1 + a / b)" using ge1 by simp
          have big: "100 < OVERFLOW_AT" by (simp add: OVERFLOW_AT_def)
          have lo: "\<not> 100 / (1 + a / b) \<le> - OVERFLOW_AT" "\<not> OVERFLOW_AT \<le> 100 / (1 + a / b)"
            using le pos big by linarith+
          have d: "jdiv (Fin 100) (Fin (1 + a / b)) = Fin (100 / (1 + a / b))"
            using ge1 lo by (simp add: overflow_def)
          have lo2: "\<not> 100 - 100 / (1 + a / b) \<le> - OVERFLOW_AT"
            "\<not> OVERFLOW_AT \<le> 100 - 100 / (1 + a / b)"
            using le pos big by linarith+
          have "jsub (Fin 100) (Fin (100 / (1 + a / b))) = Fin (100 - 100 / (1 + a / b))"
            using lo2 by (simp add: jsub_def overflow_def)
          with s d l b le pos show ?thesis
            by (simp add: rsi_value_def Let_def)
        qed
      qed
    next
      case PInf
      with l b show ?thesis
        by (simp add: rsi_value_def overflow_def jsub_def OVERFLOW_AT_def)
    next
      case NInf
      with assms(1) show ?thesis by (simp add: nonneg_or_inf_def)
    next
      case NaN
      with assms(1) show ?thesis by (simp add: nonneg_or_inf_def)
    qed
  qed
next
  case PInf
  note l = this
  show ?thesis
  proof (cases g)
    case (Fin a)
    with l show ?thesis
      by (simp add: rsi_value_def overflow_def jsub_def OVERFLOW_AT_def)
  next
    case PInf
    with l show ?thesis by (simp add: rsi_value_def jsub_def)
  next
    case NInf
    with assms(1) show ?thesis by (simp add: nonneg_or_inf_def)
  next
    case NaN
    with assms(1) show ?thesis by (simp add: nonneg_or_inf_def)
  qed
next
  case NInf
  with assms(2) show ?thesis by (simp add: nonneg_or_inf_def)
next
  case NaN
  with assms(2) show ?thesis by (simp add: nonneg_or_inf_def)
qed

lemma spec_averages_nonneg:
  assumes "1 < period" "list_all is_finite vs"
  shows "nonneg_or_inf (spec_avgGain period vs)" "nonneg_or_inf (spec_avgLoss period vs)"
proof -
  have nn: "NaN \<notin> set (successive_differences vs)"
    by (rule finite_differences_not_NaN [OF assms(2)])
  then have "list_all nonneg_or_inf (map gain_of (successive_differences vs))"
    "list_all nonneg_or_inf (map loss_of (successive_differences vs))"
    by (auto simp: list_all_iff intro!: nonneg_gain_of nonneg_loss_of)
  then show "nonneg_or_inf (spec_avgGain period vs)" "nonneg_or_inf (spec_avgLoss period vs)"
    unfolding spec_avgGain_def spec_avgLoss_def
    by (simp_all add: nonneg_spec_running_average [OF assms(1)])
qed

lemma overflow_small: "- 1000000 < r \<Longrightarrow> r < 1000000 \<Longrightarrow> overflow r = Fin r"
  by (simp add: overflow_def OVERFLOW_AT_def)

lemma calculateRSI_num_mixed17: "calculateRSI_num mixed17 RSI_PERIOD = Some (Fin (23400 / 421))"
  by (simp add: calculateRSI_num_def rsi_averages_num_def mixed17_def upt_rec RSI_PERIOD_def
      rsi_seed_step_num_def rsi_wilder_step_num_def rsi_value_def Let_def jsub_def
      overflow_small)

lemma calculateRSI_num_falling16: "calculateRSI_num falling16 RSI_PERIOD = Some (Fin 0)"
  by (simp add: calculateRSI_num_def rsi_averages_num_def falling16_def upt_rec RSI_PERIOD_def
      rsi_seed_step_num_def rsi_wilder_step_num_def rsi_value_def Let_def jsub_def
      overflow_small)

text \<open>
  C6, amended. For every finite price sequence of length > 14 the relative-strength
  oscillator returns exactly 100 when the Wilder running average of the losses is
  exactly 0, and 100 - 100 / (1 + avgGain / avgLoss) otherwise, the two averages being
  the seeded Wilder averages of the gains and losses of the successive differences; the
  value lies in [0,100] unless both averages have overflowed to Infinity, and is NaN
  then.
\<close>

theorem calculateRSI_num_range:
  assumes "14 < length vs" and "list_all is_finite vs"
  shows "\<exists>r. calculateRSI_num vs RSI_PERIOD = Some r \<and>
    r = (if spec_avgLoss RSI_PERIOD vs = Fin 0 then Fin 100
         else jsub (Fin 100)
                (jdiv (Fin 100)
                   (jadd (Fin 1) (jdiv (spec_avgGain RSI_PERIOD vs) (spec_avgLoss RSI_PERIOD vs))))) \<and>
    (spec_avgGain RSI_PERIOD vs = PInf \<and> spec_avgLoss RSI_PERIOD vs = PInf \<longrightarrow> r = NaN) \<and>
    (\<not> (spec_avgGain RSI_PERIOD vs = PInf \<and> spec_avgLoss RSI_PERIOD vs = PInf) \<longrightarrow>
       (\<exists>x. r = Fin x \<and> 0 \<le> x \<and> x \<le> 100))"
proof -
  have len: "RSI_PERIOD < length vs" using assms(1) by (simp add: RSI_PERIOD_def)
  have avg: "rsi_averages_num vs RSI_PERIOD = (spec_avgGain RSI_PERIOD vs, spec_avgLoss RSI_PERIOD vs)"
    unfolding spec_avgGain_def spec_avgLoss_def by (rule rsi_averages_num_spec [OF len assms(2)])
  have res: "calculateRSI_num vs RSI_PERIOD
      = Some (rsi_value (spec_avgGain RSI_PERIOD vs) (spec_avgLoss RSI_PERIOD vs))"
    using len by (simp add: calculateRSI_num_def avg)
  have p: "1 < RSI_PERIOD" by (simp add: RSI_PERIOD_def)
  note nn = spec_averages_nonneg [OF p assms(2)]
  from rsi_value_range [OF nn] res show ?thesis
    by (simp add: rsi_value_def Let_def)
qed

theorem calculateRSI_num_range_witness:
  "14 < length mixed17 \<and> list_all is_finite mixed17 \<and>
   calculateRSI_num mixed17 RSI_PERIOD = Some (Fin (23400 / 421)) \<and>
   spec_avgGain RSI_PERIOD mixed17 = Fin (351 / 196) \<and>
   spec_avgLoss RSI_PERIOD mixed17 = Fin (561 / 392)"
  using calculateRSI_num_range [of mixed17] calculateRSI_num_mixed17
  by (simp add: mixed17_def spec_avgGain_def spec_avgLoss_def spec_running_average_def
      gain_of_def loss_of_def jsub_def overflow_small RSI_PERIOD_def)

text \<open>
  The claim as worded fails on the code: on fifteen finite prices that swing between
  \<open>2^1023\<close> and 1 the sums of the gains and of the losses both overflow, and the result
  is NaN.
\<close>

theorem calculateRSI_num_counterexample:
  "14 < length swing15 \<and> list_all is_finite swing15 \<and>
   calculateRSI_num swing15 RSI_PERIOD = Some NaN"
  by (simp add: calculateRSI_num_def rsi_averages_num_def swing15_def upt_rec RSI_PERIOD_def
      rsi_seed_step_num_def rsi_wilder_step_num_def rsi_value_def Let_def jsub_def overflow_def
      OVERFLOW_AT_def)

text \<open>The oscillator on exact reals, as the assembly uses it, on two small series.\<close>

lemma calculateRSI_rising: "calculateRSI rising15 RSI_PERIOD = Some 100"
  by (simp add: calculateRSI_def rsi_averages_def RSI_PERIOD_def rising15_def upt_rec
      rsi_seed_step_def rsi_wilder_step_def Let_def)

lemma calculateRSI_mixed: "calculateRSI [2, 1, 2, 1] 3 = Some (100 / 3)"
  by (simp add: calculateRSI_def rsi_averages_def upt_rec rsi_seed_step_def
      rsi_wilder_step_def Let_def)

text \<open>Two series that run the second loop: one that only falls, and the rising and
  falling series of \<open>mixed17\<close>.\<close>

lemma calculateRSI_falling:
  "calculateRSI [16, 15, 14, 13, 12, 11, 10, 9, 8, 7, 6, 5, 4, 3, 2, 1] RSI_PERIOD = Some 0"
  by (simp add: calculateRSI_def rsi_averages_def RSI_PERIOD_def upt_rec
      rsi_seed_step_def rsi_wilder_step_def Let_def)

lemma calculateRSI_rise_and_fall:
  "calculateRSI [10, 12, 11, 13, 12, 14, 13, 15, 14, 16, 15, 17, 16, 18, 17, 31, 17] RSI_PERIOD
     = Some (23400 / 421)"
  by (simp add: calculateRSI_def rsi_averages_def RSI_PERIOD_def upt_rec
      rsi_seed_step_def rsi_wilder_step_def Let_def)

section \<open>Properties of the composite scorer\<close>

lemma composite_step_sums:
  "composite_step s k acc =
     (fst acc + contribution (signal_at s k) (weights k),
      snd acc + present_weight (signal_at s k) (weights k))"
  by (cases "signal_at s k")
     (simp_all add: composite_step_def contribution_def present_weight_def)

lemma composite_fold:
  "fold (composite_step s) signal_keys (0, 0) = (spec_weighted_sum s, spec_total_weight s)"
  by (simp add: signal_keys_def composite_step_sums spec_weighted_sum_def
      spec_total_weight_def)

lemma present_weight_nonneg: "0 \<le> w \<Longrightarrow> 0 \<le> present_weight v w"
  by (cases v) (simp_all add: present_weight_def)

lemma present_weight_zero_iff: "0 < w \<Longrightarrow> present_weight v w = 0 \<longleftrightarrow> v = None"
  by (cases v) (simp_all add: present_weight_def)

lemma spec_total_weight_zero_iff: "spec_total_weight s = 0 \<longleftrightarrow> all_absent s"
proof
  assume "all_absent s"
  then show "spec_total_weight s = 0"
    by (simp add: all_absent_def spec_total_weight_def present_weight_def)
next
  assume z: "spec_total_weight s = 0"
  have nn: "0 \<le> present_weight (smaTrend s) 0.20" "0 \<le> present_weight (rsi s) 0.15"
    "0 \<le> present_weight (macd s) 0.20" "0 \<le> present_weight (bollinger s) 0.10"
    "0 \<le> present_weight (volumeSurge s) 0.10" "0 \<le> present_weight (sentiment s) 0.15"
    "0 \<le> present_weight (ivRank s) 0.10"
    by (simp_all add: present_weight_nonneg)
  from z have "present_weight (smaTrend s) 0.20 = 0 \<and> present_weight (rsi s) 0.15 = 0 \<and>
    present_weight (macd s) 0.20 = 0 \<and> present_weight (bollinger s) 0.10 = 0 \<and>
    present_weight (volumeSurge s) 0.10 = 0 \<and> present_weight (sentiment s) 0.15 = 0 \<and>
    present_weight (ivRank s) 0.10 = 0"
    unfolding spec_total_weight_def using nn by linarith
  then show "all_absent s"
    by (simp add: all_absent_def present_weight_zero_iff)
qed

lemma clamp_bounds: "- 1 \<le> clamp v \<and> clamp v \<le> 1"
  by (simp add: clamp_def clamp3_def)

lemma clamp_idem: "clamp (clamp v) = clamp v"
  by (simp add: clamp_def clamp3_def)

text \<open>
  C1. The composite score is the clamp of the sum of each present signal times its
  weight (trend 0.20, oscillator 0.15, momentum-divergence 0.20, band-position 0.10,
  volume-anomaly 0.10, sentiment 0.15, volatility-rank 0.10) divided by the sum of the
  weights of the present signals; it always lies in [-1,1]; and it is exactly 0 when
  every signal is absent.
\<close>

theorem weightedComposite_renormalised:
  "weightedComposite s =
     (if all_absent s then 0 else clamp (spec_weighted_sum s / spec_total_weight s)) \<and>
   - 1 \<le> weightedComposite s \<and> weightedComposite s \<le> 1"
proof -
  have eq: "weightedComposite s =
     (if all_absent s then 0 else clamp (spec_weighted_sum s / spec_total_weight s))"
    by (simp add: weightedComposite_def composite_fold spec_total_weight_zero_iff)
  moreover have "- 1 \<le> weightedComposite s \<and> weightedComposite s \<le> 1"
    unfolding eq using clamp_bounds by simp
  ultimately show ?thesis by simp
qed

theorem weightedComposite_renormalised_witness:
  "weightedComposite noSignals = 0 \<and> weightedComposite onlySentiment = 0.6"
  using weightedComposite_renormalised [of noSignals]
    weightedComposite_renormalised [of onlySentiment]
  by (simp add: all_absent_def noSignals_def onlySentiment_def spec_weighted_sum_def
      spec_total_weight_def contribution_def present_weight_def clamp_def clamp3_def)

lemma fetchSentiment_score:
  "fetchSentiment e up symb = Some s \<Longrightarrow>
     sentScore s = clamp ((bullishPercent s - bearishPercent s) / 100)"
  by (auto simp: fetchSentiment_def split: if_splits sum.splits option.splits prod.splits)

text \<open>
  C8. The sentiment signal is clamp((bullishPercent - bearishPercent) / 100), that is
  the quotient cut to [-1,1], the clamp being applied where the snapshot is built (its
  score) and once more by the normalizer; the signal is absent exactly when there is no
  snapshot, which is when the key is missing, the request fails or the payload has no
  sentiment field; percents 80 and 20 yield 0.6.
\<close>

theorem sentiment_signal_spec:
  "(sentimentSignal snap = None \<longleftrightarrow> snap = None) \<and>
   (fetchSentiment e up symb = None \<longleftrightarrow>
      missing_key (FINNHUB_KEY e) \<or> isl (sentimentResp up symb) \<or>
      sentimentResp up symb = Inr None) \<and>
   (\<not> missing_key (FINNHUB_KEY e) \<and> sentimentResp up symb = Inr (Some (bull, bear)) \<longrightarrow>
      fetchSentiment e up symb
        = Some \<lparr>bullishPercent = bull, bearishPercent = bear,
                sentScore = max (- 1) (min 1 ((bull - bear) / 100))\<rparr> \<and>
      sentimentSignal (fetchSentiment e up symb)
        = Some (max (- 1) (min 1 ((bull - bear) / 100)))) \<and>
   (fetchSentiment e up symb = Some s \<longrightarrow>
      sentScore s = max (- 1) (min 1 ((bullishPercent s - bearishPercent s) / 100)) \<and>
      sentimentSignal (Some s)
        = Some (max (- 1) (min 1 ((bullishPercent s - bearishPercent s) / 100)))) \<and>
   sentiment (signals (compose symb t prices fund snap vol)) = sentimentSignal snap \<and>
   (\<not> missing_key (FINNHUB_KEY e) \<and> sentimentResp up symb = Inr (Some (80, 20)) \<longrightarrow>
      sentimentSignal (fetchSentiment e up symb) = Some 0.6)"
proof (intro conjI impI)
  show "sentimentSignal snap = None \<longleftrightarrow> snap = None"
    by (cases snap) (simp_all add: sentimentSignal_def)
  show "fetchSentiment e up symb = None \<longleftrightarrow>
      missing_key (FINNHUB_KEY e) \<or> isl (sentimentResp up symb) \<or>
      sentimentResp up symb = Inr None"
    by (auto simp: fetchSentiment_def isl_def split: sum.splits option.splits prod.splits)
  show built: "fetchSentiment e up symb
        = Some \<lparr>bullishPercent = b, bearishPercent = c,
                sentScore = max (- 1) (min 1 ((b - c) / 100))\<rparr>"
    if "\<not> missing_key (FINNHUB_KEY e) \<and> sentimentResp up symb = Inr (Some (b, c))" for b c
    using that by (simp add: fetchSentiment_def clamp_def clamp3_def)
  show sig: "sentimentSignal (fetchSentiment e up symb)
        = Some (max (- 1) (min 1 ((b - c) / 100)))"
    if "\<not> missing_key (FINNHUB_KEY e) \<and> sentimentResp up symb = Inr (Some (b, c))" for b c
    unfolding built [OF that] by (simp add: sentimentSignal_def clamp_def clamp3_def)
  show "sentScore s = max (- 1) (min 1 ((bullishPercent s - bearishPercent s) / 100))"
    if "fetchSentiment e up symb = Some s"
    using fetchSentiment_score [OF that] by (simp add: clamp_def clamp3_def)
  show "sentimentSignal (Some s)
        = Some (max (- 1) (min 1 ((bullishPercent s - bearishPercent s) / 100)))"
    if "fetchSentiment e up symb = Some s"
    using fetchSentiment_score [OF that]
    by (simp add: sentimentSignal_def clamp_def clamp3_def)
  show "sentiment (signals (compose symb t prices fund snap vol)) = sentimentSignal snap"
    by (simp add: compose_def Let_def)
  show "sentimentSignal (fetchSentiment e up symb) = Some 0.6"
    if "\<not> missing_key (FINNHUB_KEY e) \<and> sentimentResp up symb = Inr (Some (80, 20))"
    unfolding sig [OF that] by simp
qed

theorem sentiment_signal_spec_witness:
  "sentimentSignal (fetchSentiment env_all_keys up_sentiment_80_20 ''AAPL'') = Some 0.6 \<and>
   fetchSentiment env_all_keys up_sentiment_250_20 ''AAPL''
     = Some \<lparr>bullishPercent = 250, bearishPercent = 20, sentScore = 1\<rparr> \<and>
   sentimentSignal (fetchSentiment env_all_keys up_sentiment_250_20 ''AAPL'') = Some 1 \<and>
   sentimentSignal (fetchSentiment env_all_keys up_down ''AAPL'') = None"
  using sentiment_signal_spec [of None env_all_keys up_sentiment_80_20 "''AAPL''" 80 20]
    sentiment_signal_spec [of None env_all_keys up_sentiment_250_20 "''AAPL''" 250 20]
    sentiment_signal_spec [of "fetchSentiment env_all_keys up_down ''AAPL''" env_all_keys
      up_down "''AAPL''"]
  by (simp add: env_all_keys_def up_sentiment_80_20_def up_sentiment_250_20_def up_down_def
      missing_key_def)

section \<open>Properties of the explanation builder\<close>

lemma highlight_spec:
  "0 \<le> t \<Longrightarrow> highlight v t bull bear =
     (case v of
        None \<Rightarrow> []
      | Some x \<Rightarrow> if \<bar>x\<bar> > t then [if x > 0 then bull else bear] else [])"
  by (cases v) (auto simp: highlight_def)

lemma threshold_nonneg: "0 \<le> threshold k"
  by (cases k) simp_all

lemma spec_clause_highlight:
  "spec_clause s k =
     highlight (signal_at s k) (threshold k) (bullish_clause k) (bearish_clause k)"
  by (simp add: spec_clause_def highlight_spec [OF threshold_nonneg])

lemma highlights_spec: "highlights s = spec_clauses s"
  by (simp add: highlights_def spec_clauses_def narrated_keys_def spec_clause_highlight)

text \<open>
  C9, amended. For each of the six narrated signals that is present and whose absolute
  value exceeds its threshold (0.2 for trend, sentiment and volatility-rank; 0.3 for
  oscillator, momentum-divergence and volume-anomaly) the builder emits exactly one
  clause, the bullish one for a positive value and the bearish one otherwise; it joins
  the clauses with ". " and ends the result with "."; when no signal qualifies it returns
  "Signals are mixed with no single driver dominating the setup.".
\<close>

theorem buildExplanation_amended:
  "highlights s = spec_clauses s \<and>
   (\<forall>k \<in> set narrated_keys. length (spec_clause s k) \<le> 1) \<and>
   buildExplanation s =
     (if spec_clauses s = []
      then ''Signals are mixed with no single driver dominating the setup.''
      else join ''. '' (spec_clauses s) @ ''.'')"
proof (intro conjI)
  show "highlights s = spec_clauses s" by (rule highlights_spec)
  show "\<forall>k \<in> set narrated_keys. length (spec_clause s k) \<le> 1"
    by (auto simp: spec_clause_def split: option.splits)
  show "buildExplanation s =
     (if spec_clauses s = []
      then ''Signals are mixed with no single driver dominating the setup.''
      else join ''. '' (spec_clauses s) @ ''.'')"
    by (simp add: buildExplanation_def highlights_spec)
qed

theorem buildExplanation_amended_witness:
  "buildExplanation trendAndSentiment =
     ''Trend momentum: 50-day moving average is comfortably above the 200-day. News sentiment skewed cautious.''"
  using buildExplanation_amended [of trendAndSentiment]
  by (simp add: trendAndSentiment_def noSignals_def spec_clauses_def narrated_keys_def
      spec_clause_def)

text \<open>
  The claim as worded fails on the code: with every signal absent the code's neutral
  sentence is not the quoted one, and with two qualifying signals the result carries a
  final full stop that the join alone does not have.
\<close>

theorem buildExplanation_counterexample:
  "buildExplanation noSignals \<noteq> spec_buildExplanation noSignals \<and>
   buildExplanation trendAndSentiment \<noteq> spec_buildExplanation trendAndSentiment"
  by (simp add: buildExplanation_def spec_buildExplanation_def highlights_spec
      trendAndSentiment_def noSignals_def spec_clauses_def narrated_keys_def
      spec_clause_def spec_neutral_sentence_def)

section \<open>Properties of the signal assembly\<close>

lemma length_insert_cmp: "length (insert_cmp cmp x xs) = Suc (length xs)"
  by (induction xs) simp_all

lemma length_sort_cmp: "length (sort_cmp cmp xs) = length xs"
  by (induction xs) (simp_all add: sort_cmp_def length_insert_cmp)

lemma mset_insert_cmp: "mset (insert_cmp cmp x xs) = add_mset x (mset xs)"
  by (induction xs) simp_all

lemma mset_sort_cmp: "mset (sort_cmp cmp xs) = mset xs"
  by (induction xs) (simp_all add: sort_cmp_def mset_insert_cmp)

lemma set_insert_cmp: "set (insert_cmp cmp x xs) = insert x (set xs)"
  by (induction xs) auto

lemma fetchPriceHistory_fails_iff:
  "(isl (fetchPriceHistory e up symb) \<or> fetchPriceHistory e up symb = Inr [])
     \<longleftrightarrow> price_history_unavailable e up symb"
proof -
  have "sort_cmp cmp xs = [] \<longleftrightarrow> xs = []" for cmp and xs :: "PriceBar list"
    using length_sort_cmp [of cmp xs] by (metis length_0_conv)
  then show ?thesis
    by (auto simp: fetchPriceHistory_def price_history_unavailable_def
        split: sum.splits option.splits)
qed

lemma getCompositeSignal_isl:
  "isl (getCompositeSignal e up symb t)
     \<longleftrightarrow> isl (fetchPriceHistory e up symb) \<or> fetchPriceHistory e up symb = Inr []"
  by (cases "fetchPriceHistory e up symb") (simp_all add: getCompositeSignal_def Let_def)

lemma getCompositeSignal_Inr:
  "getCompositeSignal e up symb t = Inr p \<Longrightarrow>
     \<exists>prices. fetchPriceHistory e up symb = Inr prices \<and> prices \<noteq> [] \<and>
       p = compose symb t prices
             (case fetchFundamentals e up symb of Inl err \<Rightarrow> None | Inr f \<Rightarrow> Some f)
             (fetchSentiment e up symb) (fetchVolatility e up symb)"
  by (cases "fetchPriceHistory e up symb")
     (auto simp: getCompositeSignal_def Let_def split: if_splits)

lemma compose_signals:
  "signals (compose symb t prices fund sent vol) =
     (signals (compose symb t prices None None None))
       \<lparr>sentiment := sentimentSignal sent, ivRank := calculateIvRank vol\<rparr>"
  by (simp add: compose_def Let_def sentimentSignal_def calculateIvRank_def)

lemma optional_failures_absent:
  "(isl (overviewResp up symb) \<longrightarrow> isl (fetchFundamentals e up symb)) \<and>
   (isl (sentimentResp up symb) \<longrightarrow> fetchSentiment e up symb = None) \<and>
   (isl (volatilityResp up symb) \<longrightarrow> fetchVolatility e up symb = None)"
  by (auto simp: fetchFundamentals_def fetchSentiment_def fetchVolatility_def isl_def)

text \<open>
  C2. The assembly fails if and only if the price history cannot be obtained (missing
  key, failing provider, absent or empty series). When it succeeds, the optional inputs
  decide only the sentiment and the volatility-rank signal, every other signal being
  what the prices alone give; a failing sentiment or volatility provider makes its
  signal absent.
\<close>

theorem getCompositeSignal_fails_iff:
  "(isl (getCompositeSignal e up symb t) \<longleftrightarrow> price_history_unavailable e up symb) \<and>
   (\<forall>p. getCompositeSignal e up symb t = Inr p \<longrightarrow>
      (\<exists>prices. fetchPriceHistory e up symb = Inr prices \<and> prices \<noteq> [] \<and>
         signals p = (signals (compose symb t prices None None None))
           \<lparr>sentiment := sentimentSignal (fetchSentiment e up symb),
            ivRank := calculateIvRank (fetchVolatility e up symb)\<rparr>) \<and>
      (isl (sentimentResp up symb) \<longrightarrow> sentiment (signals p) = None) \<and>
      (isl (volatilityResp up symb) \<longrightarrow> ivRank (signals p) = None))"
proof (intro conjI allI impI)
  show "isl (getCompositeSignal e up symb t) \<longleftrightarrow> price_history_unavailable e up symb"
    by (simp add: getCompositeSignal_isl fetchPriceHistory_fails_iff)
next
  fix p assume ok: "getCompositeSignal e up symb t = Inr p"
  from getCompositeSignal_Inr [OF ok] obtain prices where
    pr: "fetchPriceHistory e up symb = Inr prices" "prices \<noteq> []" and
    p: "p = compose symb t prices
             (case fetchFundamentals e up symb of Inl err \<Rightarrow> None | Inr f \<Rightarrow> Some f)
             (fetchSentiment e up symb) (fetchVolatility e up symb)"
    by blast
  have sg: "signals p = (signals (compose symb t prices None None None))
           \<lparr>sentiment := sentimentSignal (fetchSentiment e up symb),
            ivRank := calculateIvRank (fetchVolatility e up symb)\<rparr>"
    unfolding p by (rule compose_signals)
  with pr show "\<exists>prices. fetchPriceHistory e up symb = Inr prices \<and> prices \<noteq> [] \<and>
         signals p = (signals (compose symb t prices None None None))
           \<lparr>sentiment := sentimentSignal (fetchSentiment e up symb),
            ivRank := calculateIvRank (fetchVolatility e up symb)\<rparr>"
    by blast
  show "sentiment (signals p) = None" if "isl (sentimentResp up symb)"
    using that optional_failures_absent [of up symb e] by (simp add: sg sentimentSignal_def)
  show "ivRank (signals p) = None" if "isl (volatilityResp up symb)"
    using that optional_failures_absent [of up symb e] by (simp add: sg calculateIvRank_def)
qed

lemma fetch_down: "getCompositeSignal env_all_keys up_down symb t = Inl RequestFailed"
  by (simp add: getCompositeSignal_def fetchPriceHistory_def env_all_keys_def up_down_def
      missing_key_def)

lemma fetch_empty: "getCompositeSignal env_all_keys up_empty_series symb t = Inl NoPriceData"
  by (simp add: getCompositeSignal_def fetchPriceHistory_def env_all_keys_def
      up_empty_series_def missing_key_def List.map_filter_simps sort_cmp_def Let_def)

lemma fetch_one_bar:
  "getCompositeSignal env_all_keys up_one_bar symb t = Inr (one_bar_pick symb t)"
  by (simp add: getCompositeSignal_def fetchPriceHistory_def fetchFundamentals_def
      fetchSentiment_def fetchVolatility_def env_all_keys_def
      up_one_bar_def missing_key_def List.map_filter_simps sort_cmp_def Let_def
      finite_bar_def one_bar_pick_def)

lemma one_bar_pick_value:
  "one_bar_pick symb t =
     \<lparr>symbol = symb, score = 0, updatedAt = t, latestPrice = Some 100,
      explanation = ''Signals are mixed with no single driver dominating the setup.'',
      signals = noSignals,
      details = [\<lparr>dname = ''Last Price'', dvalue = [Lit ''$'', Fixed 100 2], dsignal = None\<rparr>]\<rparr>"
  by (simp add: one_bar_pick_def compose_def Let_def calculateSMA_def calculateRSI_def
      calculateMACD_def calculateBollinger_def calculateVolumeSurge_def RSI_PERIOD_def
      BOLLINGER_PERIOD_def VOLUME_PERIOD_def smaSignal_def rsiSignal_def macdSignal_def
      bollingerSignal_def sentimentSignal_def calculateIvRank_def noSignals_def
      weightedComposite_def signal_keys_def composite_step_def buildExplanation_def
      highlights_def highlight_def buildDetails_def fundamentalDetails_def)

theorem getCompositeSignal_fails_iff_witness:
  "isl (getCompositeSignal env_all_keys up_empty_series ''ZZZ'' 5) \<and>
   isl (getCompositeSignal env_all_keys up_down ''AAPL'' 5) \<and>
   getCompositeSignal env_all_keys up_one_bar ''AAPL'' 5 = Inr (one_bar_pick ''AAPL'' 5) \<and>
   signals (one_bar_pick ''AAPL'' 5) = noSignals"
  using getCompositeSignal_fails_iff [of env_all_keys up_empty_series "''ZZZ''" 5]
    getCompositeSignal_fails_iff [of env_all_keys up_down "''AAPL''" 5]
    getCompositeSignal_fails_iff [of env_all_keys up_one_bar "''AAPL''" 5]
  by (simp add: fetch_one_bar fetch_down fetch_empty one_bar_pick_value)

section \<open>Properties of the cache and the batch handler\<close>

lemma sorted_insert_desc:
  "sorted_wrt (\<lambda>a b. score a \<ge> score b) xs \<Longrightarrow>
   sorted_wrt (\<lambda>a b. score a \<ge> score b) (insert_cmp (\<lambda>a b. score b - score a) x xs)"
proof (induction xs)
  case Nil
  then show ?case by simp
next
  case (Cons y ys)
  show ?case
  proof (cases "score y - score x \<le> 0")
    case True
    with Cons.prems show ?thesis by (auto intro: order_trans)
  next
    case False
    with Cons show ?thesis by (auto simp: set_insert_cmp)
  qed
qed

lemma sorted_sort_desc:
  "sorted_wrt (\<lambda>a b. score a \<ge> score b) (sort_cmp (\<lambda>a b. score b - score a) xs)"
  by (induction xs) (simp_all add: sort_cmp_def sorted_insert_desc)

lemma loadSignal_fst:
  "fst (loadSignal e up ttl st symb now stamp) =
     (case cached_fresh (cache st) ttl now symb of
        Some p \<Rightarrow> Inr p
      | None \<Rightarrow> getCompositeSignal e up symb stamp)"
  by (simp add: loadSignal_def assemble_and_store_def split: option.splits sum.splits)

lemma pickOrPlaceholder_settled:
  "pickOrPlaceholder e up ttl st0 r = Inr (settled_pick e up ttl st0 r)"
  by (simp add: pickOrPlaceholder_def settled_pick_def loadSignal_fst
      split: option.splits sum.splits)

lemma promise_all_Inr: "promise_all (map Inr xs) = Inr xs"
  by (induction xs) simp_all

lemma promise_all_picks:
  "promise_all (map (pickOrPlaceholder e up ttl st0) reqs)
     = Inr (map (settled_pick e up ttl st0) reqs)"
proof -
  have "map (pickOrPlaceholder e up ttl st0) reqs
      = map Inr (map (settled_pick e up ttl st0) reqs)"
    by (simp add: pickOrPlaceholder_settled)
  then show ?thesis by (simp only: promise_all_Inr)
qed

lemma getPicks_eq:
  "getPicks e up ttl st0 reqs sentAt =
     (Ok200 \<lparr>bodyUpdatedAt = sentAt, bodySymbols = map reqSymbol reqs,
             picks = sort_cmp (\<lambda>a b. score b - score a)
                       (map (settled_pick e up ttl st0) reqs)\<rparr>,
      fold (settle e up ttl st0) reqs st0)"
  by (simp add: getPicks_def promise_all_picks Let_def)

lemma mixed_picks:
  "settled_pick env_all_keys up_mixed CACHE_TTL_MS st_empty
       \<lparr>reqSymbol = ''NVDA'', readAt = 1000, settledAt = 1040\<rparr>
     = compose ''NVDA'' 1040 [\<lparr>date = 1, close = 100, volume = 1000\<rparr>] None
         (Some \<lparr>bullishPercent = 10, bearishPercent = 60, sentScore = - 0.5\<rparr>) None"
  "settled_pick env_all_keys up_mixed CACHE_TTL_MS st_empty
       \<lparr>reqSymbol = ''ZZZ'', readAt = 1000, settledAt = 1010\<rparr>
     = degraded ''ZZZ'' 1010"
  "settled_pick env_all_keys up_mixed CACHE_TTL_MS st_empty
       \<lparr>reqSymbol = ''MSFT'', readAt = 1001, settledAt = 1050\<rparr>
     = compose ''MSFT'' 1050 [\<lparr>date = 1, close = 100, volume = 1000\<rparr>] None
         (Some \<lparr>bullishPercent = 80, bearishPercent = 20, sentScore = 0.6\<rparr>) None"
  by (simp_all add: settled_pick_def cached_fresh_def st_empty_def getCompositeSignal_def
      fetchPriceHistory_def fetchFundamentals_def fetchSentiment_def fetchVolatility_def
      env_all_keys_def up_mixed_def missing_key_def List.map_filter_simps sort_cmp_def
      Let_def finite_bar_def clamp_def clamp3_def)

lemma compose_one_bar_sentiment:
  "symbol (compose symb t [\<lparr>date = 1, close = 100, volume = 1000\<rparr>] None
       (Some \<lparr>bullishPercent = b, bearishPercent = c, sentScore = x\<rparr>) None) = symb"
  "score (compose symb t [\<lparr>date = 1, close = 100, volume = 1000\<rparr>] None
       (Some \<lparr>bullishPercent = b, bearishPercent = c, sentScore = x\<rparr>) None) = clamp (clamp x)"
  by (simp_all add: compose_def Let_def calculateSMA_def calculateRSI_def
      calculateMACD_def calculateBollinger_def calculateVolumeSurge_def RSI_PERIOD_def
      BOLLINGER_PERIOD_def VOLUME_PERIOD_def smaSignal_def rsiSignal_def macdSignal_def
      bollingerSignal_def sentimentSignal_def calculateIvRank_def
      weightedComposite_def signal_keys_def composite_step_def)

text \<open>
  The sort of the handler on scores that are numbers: the picks of the batch response
  are the per-symbol results in descending order of score, whatever the order of the
  requested symbols. Every score of this embedding is a real. A score that is NaN (from
  a sentiment percent that does not parse, see \<open>fetchSentiment\<close>) makes the comparator
  \<open>b.score - a.score\<close> NaN, and the order of the source's result is then not
  descending; that input is not covered here.
\<close>

lemma picks_sorted_for_numeric_scores:
  "\<exists>body st'. getPicks e up ttl st0 reqs sentAt = (Ok200 body, st') \<and>
     sorted_wrt (\<lambda>a b. score a \<ge> score b) (picks body) \<and>
     (\<forall>i. Suc i < length (picks body) \<longrightarrow>
          score (picks body ! i) \<ge> score (picks body ! Suc i)) \<and>
     mset (picks body) = mset (map (settled_pick e up ttl st0) reqs)"
proof -
  let ?ps = "sort_cmp (\<lambda>a b. score b - score a) (map (settled_pick e up ttl st0) reqs)"
  have s: "sorted_wrt (\<lambda>a b. score a \<ge> score b) ?ps" by (rule sorted_sort_desc)
  have adj: "\<forall>i. Suc i < length ?ps \<longrightarrow> score (?ps ! i) \<ge> score (?ps ! Suc i)"
    using s by (simp add: sorted_wrt_iff_nth_less)
  have m: "mset ?ps = mset (map (settled_pick e up ttl st0) reqs)" by (rule mset_sort_cmp)
  show ?thesis
    unfolding getPicks_eq using s adj m by simp
qed

lemma picks_sorted_example:
  "map symbol (response_picks
       (fst (getPicks env_all_keys up_mixed CACHE_TTL_MS st_empty reqs3 1060)))
     = [''MSFT'', ''ZZZ'', ''NVDA''] \<and>
   map score (response_picks
       (fst (getPicks env_all_keys up_mixed CACHE_TTL_MS st_empty reqs3 1060)))
     = [0.6, 0, - 0.5]"
  by (simp add: getPicks_eq response_picks_def reqs3_def mixed_picks sort_cmp_def
      compose_one_bar_sentiment degraded_def clamp_def clamp3_def)

text \<open>
  C3, amended. The batch operation always answers with a picks array of one record per
  requested symbol; for every requested symbol whose assembly fails, that record is the
  degraded placeholder: score 0, all seven signals absent, empty details, latestPrice
  absent, explanation "Signal unavailable due to upstream data error." and updatedAt
  the time read when the failure is caught.
\<close>

theorem degraded_placeholder_amended:
  "\<exists>body st'. getPicks e up ttl st0 reqs sentAt = (Ok200 body, st') \<and>
     length (picks body) = length reqs \<and>
     (\<forall>r \<in> set reqs.
        cached_fresh (cache st0) ttl (readAt r) (reqSymbol r) = None \<and>
        isl (getCompositeSignal e up (reqSymbol r) (settledAt r)) \<longrightarrow>
        settled_pick e up ttl st0 r =
          \<lparr>symbol = reqSymbol r, score = 0, updatedAt = settledAt r, latestPrice = None,
           explanation = ''Signal unavailable due to upstream data error.'',
           signals = \<lparr>smaTrend = None, rsi = None, macd = None, bollinger = None,
                      volumeSurge = None, sentiment = None, ivRank = None\<rparr>,
           details = []\<rparr> \<and>
        settled_pick e up ttl st0 r \<in> set (picks body))"
proof -
  let ?raw = "map (settled_pick e up ttl st0) reqs"
  let ?ps = "sort_cmp (\<lambda>a b. score b - score a) ?raw"
  let ?body = "\<lparr>bodyUpdatedAt = sentAt, bodySymbols = map reqSymbol reqs, picks = ?ps\<rparr>"
  have set_eq: "set ?ps = set ?raw"
    using mset_sort_cmp [of "\<lambda>a b. score b - score a" ?raw] by (metis set_mset_mset)
  have deg: "settled_pick e up ttl st0 r =
          \<lparr>symbol = reqSymbol r, score = 0, updatedAt = settledAt r, latestPrice = None,
           explanation = ''Signal unavailable due to upstream data error.'',
           signals = \<lparr>smaTrend = None, rsi = None, macd = None, bollinger = None,
                      volumeSurge = None, sentiment = None, ivRank = None\<rparr>,
           details = []\<rparr>"
    if "cached_fresh (cache st0) ttl (readAt r) (reqSymbol r) = None"
      and "isl (getCompositeSignal e up (reqSymbol r) (settledAt r))" for r
    using that by (auto simp: settled_pick_def degraded_def noSignals_def isl_def)
  have mem: "settled_pick e up ttl st0 r \<in> set ?ps" if "r \<in> set reqs" for r
    unfolding set_eq using that by simp
  have each: "\<forall>r \<in> set reqs.
        cached_fresh (cache st0) ttl (readAt r) (reqSymbol r) = None \<and>
        isl (getCompositeSignal e up (reqSymbol r) (settledAt r)) \<longrightarrow>
        settled_pick e up ttl st0 r =
          \<lparr>symbol = reqSymbol r, score = 0, updatedAt = settledAt r, latestPrice = None,
           explanation = ''Signal unavailable due to upstream data error.'',
           signals = \<lparr>smaTrend = None, rsi = None, macd = None, bollinger = None,
                      volumeSurge = None, sentiment = None, ivRank = None\<rparr>,
           details = []\<rparr> \<and>
        settled_pick e up ttl st0 r \<in> set ?ps"
  proof (intro ballI impI conjI)
    fix r assume "r \<in> set reqs"
    then show "settled_pick e up ttl st0 r \<in> set ?ps" by (rule mem)
  next
    fix r :: pick_request
    assume "cached_fresh (cache st0) ttl (readAt r) (reqSymbol r) = None \<and>
        isl (getCompositeSignal e up (reqSymbol r) (settledAt r))"
    then show "settled_pick e up ttl st0 r =
          \<lparr>symbol = reqSymbol r, score = 0, updatedAt = settledAt r, latestPrice = None,
           explanation = ''Signal unavailable due to upstream data error.'',
           signals = \<lparr>smaTrend = None, rsi = None, macd = None, bollinger = None,
                      volumeSurge = None, sentiment = None, ivRank = None\<rparr>,
           details = []\<rparr>"
      using deg by blast
  qed
  have len: "length ?ps = length reqs" by (simp add: length_sort_cmp)
  have p: "picks ?body = ?ps" by simp
  show ?thesis
  proof (intro exI conjI)
    show "getPicks e up ttl st0 reqs sentAt = (Ok200 ?body, fold (settle e up ttl st0) reqs st0)"
      by (rule getPicks_eq)
    show "length (picks ?body) = length reqs"
      unfolding p by (rule len)
    show "\<forall>r \<in> set reqs.
        cached_fresh (cache st0) ttl (readAt r) (reqSymbol r) = None \<and>
        isl (getCompositeSignal e up (reqSymbol r) (settledAt r)) \<longrightarrow>
        settled_pick e up ttl st0 r =
          \<lparr>symbol = reqSymbol r, score = 0, updatedAt = settledAt r, latestPrice = None,
           explanation = ''Signal unavailable due to upstream data error.'',
           signals = \<lparr>smaTrend = None, rsi = None, macd = None, bollinger = None,
                      volumeSurge = None, sentiment = None, ivRank = None\<rparr>,
           details = []\<rparr> \<and>
        settled_pick e up ttl st0 r \<in> set (picks ?body)"
      unfolding p by (rule each)
  qed
qed

theorem degraded_placeholder_amended_witness:
  "fst (getPicks env_all_keys up_empty_series CACHE_TTL_MS st_empty [reqZZZ] 1010) =
     Ok200 \<lparr>bodyUpdatedAt = 1010, bodySymbols = [''ZZZ''],
            picks = [\<lparr>symbol = ''ZZZ'', score = 0, updatedAt = 1005, latestPrice = None,
                      explanation = ''Signal unavailable due to upstream data error.'',
                      signals = \<lparr>smaTrend = None, rsi = None, macd = None, bollinger = None,
                                 volumeSurge = None, sentiment = None, ivRank = None\<rparr>,
                      details = []\<rparr>]\<rparr>"
  using degraded_placeholder_amended [of env_all_keys up_empty_series CACHE_TTL_MS st_empty
      "[reqZZZ]" 1010]
  by (simp add: getPicks_eq reqZZZ_def settled_pick_def cached_fresh_def st_empty_def
      fetch_empty sort_cmp_def degraded_def noSignals_def)

text \<open>
  The claim as worded fails on the code: for the empty series of "ZZZ" the placeholder's
  explanation is not the quoted text.
\<close>

theorem degraded_placeholder_counterexample:
  "response_picks
       (fst (getPicks env_all_keys up_empty_series CACHE_TTL_MS st_empty [reqZZZ] 1010))
     = [degraded ''ZZZ'' 1005] \<and>
   explanation (degraded ''ZZZ'' 1005) \<noteq> spec_unavailable_explanation"
  by (simp add: getPicks_eq response_picks_def reqZZZ_def settled_pick_def cached_fresh_def
      st_empty_def fetch_empty sort_cmp_def degraded_def spec_unavailable_explanation_def)

lemma cached_fresh_None_iff:
  "cached_fresh c ttl now symb = None \<longleftrightarrow>
     (case c symb of None \<Rightarrow> True | Some ent \<Rightarrow> ttl \<le> now - cachedAt ent)"
  by (auto simp: cached_fresh_def split: option.splits)

lemma getCompositeSignal_updatedAt:
  "getCompositeSignal e up symb stamp = Inr p \<Longrightarrow> updatedAt p = stamp \<and> symbol p = symb"
  by (auto dest!: getCompositeSignal_Inr simp: compose_def Let_def)

text \<open>
  C4, amended. While now - entry.updatedAt < TTL (default 120 seconds) the cache read
  returns the stored payload unchanged, without an assembly and without a write; a
  second call within the TTL returns the same payload and leaves the state as it was.
  Once the TTL has elapsed (or with no entry) it makes exactly one assembly call: if
  that succeeds, the entry is overwritten and the new payload returned, whose updatedAt
  is the clock reading taken when that assembly completes, newer than the previous
  payload's exactly when that reading is later than it; if the assembly fails, the call
  fails without a write.
\<close>

theorem loadSignal_cache_contract:
  "(cache st symb = Some ent \<and> now - cachedAt ent < ttl \<longrightarrow>
      loadSignal e up ttl st symb now stamp = (Inr (payload ent), st)) \<and>
   (cache st symb = Some ent \<and> now - cachedAt ent < ttl \<and> now' - cachedAt ent < ttl \<longrightarrow>
      loadSignal e' up' ttl (snd (loadSignal e up ttl st symb now stamp)) symb now' stamp'
        = (Inr (payload ent), st)) \<and>
   (cached_fresh (cache st) ttl now symb = None \<and>
    getCompositeSignal e up symb stamp = Inr p \<longrightarrow>
      loadSignal e up ttl st symb now stamp =
        (Inr p, st\<lparr>cache := (cache st)(symb \<mapsto> \<lparr>cachedAt = now, payload = p\<rparr>),
                   assemblies := assemblies st + 1\<rparr>) \<and>
      updatedAt p = stamp) \<and>
   (cached_fresh (cache st) ttl now symb = None \<and>
    getCompositeSignal e up symb stamp = Inl err \<longrightarrow>
      loadSignal e up ttl st symb now stamp
        = (Inl err, st\<lparr>assemblies := assemblies st + 1\<rparr>)) \<and>
   (cache st symb = Some ent \<and> ttl \<le> now - cachedAt ent \<and>
    getCompositeSignal e up symb stamp = Inr p \<longrightarrow>
      (updatedAt (payload ent) < updatedAt p \<longleftrightarrow> updatedAt (payload ent) < stamp)) \<and>
   (cached_fresh (cache st) ttl now symb = None \<longleftrightarrow>
      (case cache st symb of None \<Rightarrow> True | Some old \<Rightarrow> ttl \<le> now - cachedAt old)) \<and>
   CACHE_TTL_MS = 120 * 1000"
proof (intro conjI impI)
  show hit: "loadSignal e up ttl st symb now stamp = (Inr (payload ent), st)"
    if "cache st symb = Some ent \<and> now - cachedAt ent < ttl" for e up now stamp
    using that by (simp add: loadSignal_def cached_fresh_def)
  show "loadSignal e' up' ttl (snd (loadSignal e up ttl st symb now stamp)) symb now' stamp'
        = (Inr (payload ent), st)"
    if "cache st symb = Some ent \<and> now - cachedAt ent < ttl \<and> now' - cachedAt ent < ttl"
    using that by (simp add: hit)
  show "loadSignal e up ttl st symb now stamp =
        (Inr p, st\<lparr>cache := (cache st)(symb \<mapsto> \<lparr>cachedAt = now, payload = p\<rparr>),
                   assemblies := assemblies st + 1\<rparr>)"
    if "cached_fresh (cache st) ttl now symb = None \<and>
        getCompositeSignal e up symb stamp = Inr p"
    using that by (simp add: loadSignal_def assemble_and_store_def)
  show "updatedAt p = stamp"
    if "cached_fresh (cache st) ttl now symb = None \<and>
        getCompositeSignal e up symb stamp = Inr p"
    using that getCompositeSignal_updatedAt by blast
  show "loadSignal e up ttl st symb now stamp
      = (Inl err, st\<lparr>assemblies := assemblies st + 1\<rparr>)"
    if "cached_fresh (cache st) ttl now symb = None \<and>
        getCompositeSignal e up symb stamp = Inl err"
    using that by (simp add: loadSignal_def assemble_and_store_def)
  show "updatedAt (payload ent) < updatedAt p \<longleftrightarrow> updatedAt (payload ent) < stamp"
    if "cache st symb = Some ent \<and> ttl \<le> now - cachedAt ent \<and>
        getCompositeSignal e up symb stamp = Inr p"
    using that getCompositeSignal_updatedAt [of e up symb stamp p] by simp
  show "cached_fresh (cache st) ttl now symb = None \<longleftrightarrow>
      (case cache st symb of None \<Rightarrow> True | Some old \<Rightarrow> ttl \<le> now - cachedAt old)"
    by (rule cached_fresh_None_iff)
  show "CACHE_TTL_MS = 120 * 1000" by (simp add: CACHE_TTL_MS_def)
qed

theorem loadSignal_cache_contract_witness:
  "loadSignal env_all_keys up_down CACHE_TTL_MS st_stale ''AAPL'' 100000 100050
     = (Inr (one_bar_pick ''AAPL'' 40), st_stale) \<and>
   loadSignal env_all_keys up_one_bar CACHE_TTL_MS st_stale ''AAPL'' 200000 200050
     = (Inr (one_bar_pick ''AAPL'' 200050),
        \<lparr>cache = [''AAPL'' \<mapsto> \<lparr>cachedAt = 200000, payload = one_bar_pick ''AAPL'' 200050\<rparr>],
         assemblies = 2\<rparr>) \<and>
   updatedAt (one_bar_pick ''AAPL'' 40) < updatedAt (one_bar_pick ''AAPL'' 200050)"
  using loadSignal_cache_contract [of st_stale "''AAPL''"
      "\<lparr>cachedAt = 0, payload = one_bar_pick ''AAPL'' 40\<rparr>" 100000 CACHE_TTL_MS
      env_all_keys up_down 100050 100000 env_all_keys up_down 100050
      "one_bar_pick ''AAPL'' 100050" RequestFailed]
    loadSignal_cache_contract [of st_stale "''AAPL''"
      "\<lparr>cachedAt = 0, payload = one_bar_pick ''AAPL'' 40\<rparr>" 200000 CACHE_TTL_MS
      env_all_keys up_one_bar 200050 200000 env_all_keys up_one_bar 200050
      "one_bar_pick ''AAPL'' 200050" RequestFailed]
  by (simp add: st_stale_def CACHE_TTL_MS_def fetch_one_bar fetch_down cached_fresh_def
      one_bar_pick_value)

text \<open>
  The claim as worded fails on the code, in two ways. With a stale entry and a failing
  price provider the call returns no payload and the entry is not overwritten. And a
  successful reassembly need not return a newer updatedAt: a first read at time 0 whose
  assembly settles at time 120000 stores a payload stamped 120000 under the time 0; a
  second read at time 120000 finds the TTL elapsed, and when its assembly settles within
  the same millisecond the new payload is stamped 120000 again. Likewise, after a first
  assembly that settled at time 500000, a read at a clock reading of 200000 (the wall
  clock of \<open>Date.now()\<close> set back in between) returns a payload stamped 200050, older
  than the previous one.
\<close>

theorem loadSignal_counterexample:
  "cache st_stale ''AAPL'' = Some \<lparr>cachedAt = 0, payload = one_bar_pick ''AAPL'' 40\<rparr> \<and>
   CACHE_TTL_MS \<le> 200000 - 0 \<and>
   loadSignal env_all_keys up_down CACHE_TTL_MS st_stale ''AAPL'' 200000 200050
     = (Inl RequestFailed, st_stale\<lparr>assemblies := 2\<rparr>) \<and>
   cache (snd (loadSignal env_all_keys up_down CACHE_TTL_MS st_stale ''AAPL'' 200000 200050))
     = cache st_stale \<and>
   loadSignal env_all_keys up_one_bar CACHE_TTL_MS st_empty ''AAPL'' 0 120000
     = (Inr (one_bar_pick ''AAPL'' 120000), st_slow) \<and>
   CACHE_TTL_MS \<le> 120000 - 0 \<and>
   fst (loadSignal env_all_keys up_one_bar CACHE_TTL_MS st_slow ''AAPL'' 120000 120000)
     = Inr (one_bar_pick ''AAPL'' 120000) \<and>
   updatedAt (one_bar_pick ''AAPL'' 120000) = 120000 \<and>
   \<not> updatedAt (one_bar_pick ''AAPL'' 120000) < updatedAt (one_bar_pick ''AAPL'' 120000) \<and>
   loadSignal env_all_keys up_one_bar CACHE_TTL_MS st_empty ''AAPL'' 0 500000
     = (Inr (one_bar_pick ''AAPL'' 500000), st_ahead) \<and>
   CACHE_TTL_MS \<le> 200000 - 0 \<and>
   fst (loadSignal env_all_keys up_one_bar CACHE_TTL_MS st_ahead ''AAPL'' 200000 200050)
     = Inr (one_bar_pick ''AAPL'' 200050) \<and>
   \<not> updatedAt (one_bar_pick ''AAPL'' 500000) < updatedAt (one_bar_pick ''AAPL'' 200050)"
  by (simp add: loadSignal_def assemble_and_store_def cached_fresh_def fetch_down
      fetch_one_bar st_stale_def st_slow_def st_ahead_def st_empty_def CACHE_TTL_MS_def
      one_bar_pick_value)

lemma compose_details_nonempty: "details (compose symb t prices fund sent vol) \<noteq> []"
  by (simp add: compose_def Let_def buildDetails_def)

lemma getCompositeSignal_not_degraded:
  "getCompositeSignal e up symb t = Inr p \<Longrightarrow> p \<noteq> degraded symb' t'"
proof
  assume ok: "getCompositeSignal e up symb t = Inr p" and eq: "p = degraded symb' t'"
  from getCompositeSignal_Inr [OF ok] have "details p \<noteq> []"
    using compose_details_nonempty by blast
  with eq show False by (simp add: degraded_def)
qed

lemma settle_cache_cases:
  "cache (settle e up ttl st0 r st) = cache st \<or>
   (\<exists>p. cached_fresh (cache st0) ttl (readAt r) (reqSymbol r) = None \<and>
        getCompositeSignal e up (reqSymbol r) (settledAt r) = Inr p \<and>
        cache (settle e up ttl st0 r st)
          = (cache st)(reqSymbol r \<mapsto> \<lparr>cachedAt = readAt r, payload = p\<rparr>))"
  by (simp add: settle_def assemble_and_store_def split: option.splits sum.splits)

lemma fold_settle_origin:
  "cache (fold (settle e up ttl st0) reqs st) k = Some ent \<Longrightarrow>
     cache st k = Some ent \<or>
     (\<exists>r \<in> set reqs. reqSymbol r = k \<and> cachedAt ent = readAt r \<and>
        cached_fresh (cache st0) ttl (readAt r) k = None \<and>
        getCompositeSignal e up k (settledAt r) = Inr (payload ent))"
proof (induction reqs arbitrary: st)
  case Nil
  then show ?case by simp
next
  case (Cons r reqs)
  from Cons.prems
  have "cache (fold (settle e up ttl st0) reqs (settle e up ttl st0 r st)) k = Some ent"
    by simp
  from Cons.IH [OF this] show ?case
  proof
    assume here: "cache (settle e up ttl st0 r st) k = Some ent"
    from settle_cache_cases [of e up ttl st0 r st] show ?thesis
    proof
      assume "cache (settle e up ttl st0 r st) = cache st"
      with here show ?thesis by simp
    next
      assume "\<exists>p. cached_fresh (cache st0) ttl (readAt r) (reqSymbol r) = None \<and>
        getCompositeSignal e up (reqSymbol r) (settledAt r) = Inr p \<and>
        cache (settle e up ttl st0 r st)
          = (cache st)(reqSymbol r \<mapsto> \<lparr>cachedAt = readAt r, payload = p\<rparr>)"
      then obtain p where fr: "cached_fresh (cache st0) ttl (readAt r) (reqSymbol r) = None"
        and ok: "getCompositeSignal e up (reqSymbol r) (settledAt r) = Inr p"
        and upd: "cache (settle e up ttl st0 r st)
          = (cache st)(reqSymbol r \<mapsto> \<lparr>cachedAt = readAt r, payload = p\<rparr>)"
        by blast
      show ?thesis
      proof (cases "reqSymbol r = k")
        case True
        with here upd have "ent = \<lparr>cachedAt = readAt r, payload = p\<rparr>" by simp
        with True fr ok show ?thesis by auto
      next
        case False
        with here upd show ?thesis by simp
      qed
    qed
  next
    assume "\<exists>r \<in> set reqs. reqSymbol r = k \<and> cachedAt ent = readAt r \<and>
        cached_fresh (cache st0) ttl (readAt r) k = None \<and>
        getCompositeSignal e up k (settledAt r) = Inr (payload ent)"
    then show ?thesis by auto
  qed
qed

lemma fold_settle_failed_key:
  "(\<forall>r \<in> set reqs. reqSymbol r = k \<longrightarrow> isl (getCompositeSignal e up k (settledAt r))) \<Longrightarrow>
     cache (fold (settle e up ttl st0) reqs st) k = cache st k"
proof (induction reqs arbitrary: st)
  case Nil
  then show ?case by simp
next
  case (Cons r reqs)
  have step: "cache (settle e up ttl st0 r st) k = cache st k"
    using settle_cache_cases [of e up ttl st0 r st] Cons.prems by auto
  from Cons.prems
  have "\<forall>r \<in> set reqs. reqSymbol r = k \<longrightarrow> isl (getCompositeSignal e up k (settledAt r))"
    by simp
  from Cons.IH [OF this] step show ?case by simp
qed

lemma getPicks_snd:
  "snd (getPicks e up ttl st0 reqs sentAt) = fold (settle e up ttl st0) reqs st0"
  by (simp add: getPicks_eq)

lemma cached_fresh_later:
  "cached_fresh c ttl now k = None \<Longrightarrow> now \<le> now' \<Longrightarrow> cached_fresh c ttl now' k = None"
  by (auto simp: cached_fresh_def split: option.splits if_splits)

lemma cached_fresh_cong:
  "c k = c' k \<Longrightarrow> cached_fresh c ttl now k = cached_fresh c' ttl now k"
  by (simp add: cached_fresh_def)

lemma loadSignal_miss_assembles:
  "cached_fresh (cache st) ttl now k = None \<Longrightarrow>
     assemblies (snd (loadSignal e up ttl st k now stamp)) = assemblies st + 1"
  by (simp add: loadSignal_def assemble_and_store_def split: sum.splits)

text \<open>
  C10. A failing assembly leaves the cache as it was: the cache read writes only after a
  successful assembly. After a batch, every entry of the cache is an entry it held
  before or the payload of a successful assembly of the batch, never the degraded
  placeholder; the key of a symbol whose assemblies all failed is unchanged, and a later
  read of that symbol, which had no fresh entry, calls the assembly again.
\<close>

theorem failure_leaves_cache:
  "(cached_fresh (cache st) ttl now k = None \<and> isl (getCompositeSignal e up k stamp) \<longrightarrow>
      isl (fst (loadSignal e up ttl st k now stamp)) \<and>
      cache (snd (loadSignal e up ttl st k now stamp)) = cache st) \<and>
   (cache (snd (loadSignal e up ttl st k now stamp)) = cache st \<or>
      (\<exists>p. getCompositeSignal e up k stamp = Inr p \<and>
           cache (snd (loadSignal e up ttl st k now stamp))
             = (cache st)(k \<mapsto> \<lparr>cachedAt = now, payload = p\<rparr>))) \<and>
   (\<forall>ent. cache (snd (getPicks e up ttl st0 reqs sentAt)) k = Some ent \<longrightarrow>
      cache st0 k = Some ent \<or>
      (\<exists>r \<in> set reqs. reqSymbol r = k \<and> cachedAt ent = readAt r \<and>
         getCompositeSignal e up k (settledAt r) = Inr (payload ent) \<and>
         (\<forall>symb' t'. payload ent \<noteq> degraded symb' t'))) \<and>
   ((\<forall>r \<in> set reqs. reqSymbol r = k \<longrightarrow> isl (getCompositeSignal e up k (settledAt r))) \<longrightarrow>
      cache (snd (getPicks e up ttl st0 reqs sentAt)) k = cache st0 k \<and>
      (\<forall>r \<in> set reqs. \<forall>now'. reqSymbol r = k \<and>
           cached_fresh (cache st0) ttl (readAt r) k = None \<and> readAt r \<le> now' \<longrightarrow>
         assemblies (snd (loadSignal e' up' ttl (snd (getPicks e up ttl st0 reqs sentAt))
                            k now' stamp'))
           = assemblies (snd (getPicks e up ttl st0 reqs sentAt)) + 1))"
proof (intro conjI impI allI ballI)
  assume h: "cached_fresh (cache st) ttl now k = None \<and> isl (getCompositeSignal e up k stamp)"
  then show "isl (fst (loadSignal e up ttl st k now stamp))"
    by (simp add: loadSignal_fst)
  from h show "cache (snd (loadSignal e up ttl st k now stamp)) = cache st"
    by (auto simp: loadSignal_def assemble_and_store_def isl_def)
next
  show "cache (snd (loadSignal e up ttl st k now stamp)) = cache st \<or>
      (\<exists>p. getCompositeSignal e up k stamp = Inr p \<and>
           cache (snd (loadSignal e up ttl st k now stamp))
             = (cache st)(k \<mapsto> \<lparr>cachedAt = now, payload = p\<rparr>))"
    by (simp add: loadSignal_def assemble_and_store_def split: option.splits sum.splits)
next
  fix ent
  assume "cache (snd (getPicks e up ttl st0 reqs sentAt)) k = Some ent"
  then have "cache (fold (settle e up ttl st0) reqs st0) k = Some ent"
    by (simp add: getPicks_snd)
  from fold_settle_origin [OF this]
  show "cache st0 k = Some ent \<or>
      (\<exists>r \<in> set reqs. reqSymbol r = k \<and> cachedAt ent = readAt r \<and>
         getCompositeSignal e up k (settledAt r) = Inr (payload ent) \<and>
         (\<forall>symb' t'. payload ent \<noteq> degraded symb' t'))"
    using getCompositeSignal_not_degraded by blast
next
  assume f: "\<forall>r \<in> set reqs. reqSymbol r = k \<longrightarrow> isl (getCompositeSignal e up k (settledAt r))"
  show same: "cache (snd (getPicks e up ttl st0 reqs sentAt)) k = cache st0 k"
    unfolding getPicks_snd by (rule fold_settle_failed_key [OF f])
  fix r :: pick_request and now'
  assume "r \<in> set reqs"
    and h: "reqSymbol r = k \<and> cached_fresh (cache st0) ttl (readAt r) k = None \<and>
        readAt r \<le> now'"
  from h have a: "cached_fresh (cache st0) ttl (readAt r) k = None" and b: "readAt r \<le> now'"
    by simp_all
  have "cached_fresh (cache st0) ttl now' k = None"
    by (rule cached_fresh_later [OF a b])
  then have "cached_fresh (cache (snd (getPicks e up ttl st0 reqs sentAt))) ttl now' k = None"
    using cached_fresh_cong [of "cache (snd (getPicks e up ttl st0 reqs sentAt))" k
        "cache st0" ttl now'] same
    by simp
  then show "assemblies (snd (loadSignal e' up' ttl (snd (getPicks e up ttl st0 reqs sentAt))
                            k now' stamp'))
           = assemblies (snd (getPicks e up ttl st0 reqs sentAt)) + 1"
    by (rule loadSignal_miss_assembles)
qed

theorem failure_leaves_cache_witness:
  "cache (snd (getPicks env_all_keys up_down CACHE_TTL_MS st_stale [reqAAPL] 200060))
     = cache st_stale \<and>
   response_picks (fst (getPicks env_all_keys up_down CACHE_TTL_MS st_stale [reqAAPL] 200060))
     = [degraded ''AAPL'' 200050] \<and>
   assemblies (snd (loadSignal env_all_keys up_one_bar CACHE_TTL_MS
       (snd (getPicks env_all_keys up_down CACHE_TTL_MS st_stale [reqAAPL] 200060))
       ''AAPL'' 200100 200150)) = 3"
  using failure_leaves_cache [where st = st_stale and ttl = CACHE_TTL_MS and now = 200000
      and k = "''AAPL''" and e = env_all_keys and up = up_down and stamp = 200050
      and ?st0.0 = st_stale and reqs = "[reqAAPL]" and sentAt = 200060
      and e' = env_all_keys and up' = up_one_bar and stamp' = 200150]
  by (simp add: getPicks_eq response_picks_def reqAAPL_def settled_pick_def settle_def
      assemble_and_store_def loadSignal_def cached_fresh_def st_stale_def CACHE_TTL_MS_def
      fetch_down fetch_one_bar sort_cmp_def)

end
